theory Spec2Isabelle
  imports Main
begin

section \<open>Data model\<close>

text \<open>
  The Sequelize models of \<^verbatim>\<open>src/models/Job.js\<close> and \<^verbatim>\<open>src/models/JobExecution.js\<close>.
  Instants are milliseconds since the epoch, durations are milliseconds, both \<open>int\<close>.
  Nullable columns are \<open>option\<close>s. Opaque JSON bags (payload, result) are strings.
  Primary keys are UUIDs in the source; here a job's key is a natural number taken from a
  counter of the store, and an execution's key is its row number in the table.
\<close>

datatype job_type = Http | Script | Email | Webhook | Custom

datatype job_status = Active | Paused | Completed | Failed | Cancelled

datatype schedule_type = Immediate | Scheduled | Recurring

datatype backoff_type = Fixed | Exponential

datatype execution_status = ExPending | ExRunning | ExCompleted | ExFailed | ExCancelled | ExTimeout

record Job =
  jid :: nat
  userId :: nat
  jname :: string
  jtype :: job_type
  status :: job_status
  priority :: int
  payload :: string
  scheduleType :: schedule_type
  scheduledAt :: "int option"
  cronExpression :: "string option"
  timezone :: string
  maxRetries :: int
  retryDelay :: int
  retryBackoff :: backoff_type
  timeout :: int
  lastExecutedAt :: "int option"
  nextExecutionAt :: "int option"
  totalExecutions :: int
  successfulExecutions :: int
  failedExecutions :: int
  endAt :: "int option"
  maxExecutions :: "int option"

record JobExecution =
  eid :: nat
  jobId :: nat
  exStatus :: execution_status
  attempt :: int
  startedAt :: "int option"
  completedAt :: "int option"
  duration :: "int option"
  result :: "string option"
  exError :: "string option"
  errorMessage :: "string option"
  isRetry :: bool
  previousExecutionId :: "nat option"
  workerId :: "string option"
  exInput :: "string option"
  exOutput :: "string option"

text \<open>The lines the planner and the worker append to the job log.\<close>

datatype log_message =
    LogCreated | LogRescheduled | LogPaused | LogResumed | LogCancelled | LogTriggered
  | LogStarted int | LogCompleted int | LogFailed string int bool

datatype log_level = LvInfo | LvError

record JobLog =
  logJobId :: nat
  logExecutionId :: "nat option"
  level :: log_level
  message :: log_message

text \<open>The calls the worker makes on the notification service.\<close>

datatype notification =
    JobCompletedEvent nat nat string nat int
  | JobRetryEvent nat nat string int int string
  | MaxRetriesExceededEvent nat nat string int string

subsection \<open>Configuration\<close>

text \<open>
  \<^verbatim>\<open>src/config/index.js\<close>: \<^verbatim>\<open>parseInt(process.env.X, 10) || d\<close>. \<open>None\<close> is an unset or
  non-numeric variable (\<open>NaN\<close>); \<open>NaN\<close> and \<open>0\<close> are both falsy.
\<close>

definition orDefault :: "int option \<Rightarrow> int \<Rightarrow> int" where
  "orDefault v d = (case v of None \<Rightarrow> d | Some n \<Rightarrow> if n = 0 then d else n)"

record process_env =
  MAX_RETRY_ATTEMPTS :: "int option"
  RETRY_DELAY_MS :: "int option"
  JOB_TIMEOUT_MS :: "int option"

record job_config =
  maxRetryAttempts :: int
  retryDelayMs :: int
  timeoutMs :: int

definition load_config :: "process_env \<Rightarrow> job_config" where
  "load_config env =
     \<lparr> maxRetryAttempts = orDefault (MAX_RETRY_ATTEMPTS env) 3,
       retryDelayMs = orDefault (RETRY_DELAY_MS env) 5000,
       timeoutMs = orDefault (JOB_TIMEOUT_MS env) 300000 \<rparr>"

definition default_config :: job_config where
  "default_config =
     load_config \<lparr> MAX_RETRY_ATTEMPTS = None, RETRY_DELAY_MS = None, JOB_TIMEOUT_MS = None \<rparr>"

subsection \<open>Queue envelopes\<close>

text \<open>
  \<open>queueData\<close> is the object \<^verbatim>\<open>enqueueJob\<close> and \<^verbatim>\<open>triggerJob\<close> hand to the queue;
  \<^verbatim>\<open>triggerJob\<close> leaves \<^verbatim>\<open>retryDelay\<close> and \<^verbatim>\<open>retryBackoff\<close> out. \<open>job_opts\<close> are
  the options a queue entry ends up with, \<open>bullJob\<close> is what the worker's processor receives.
\<close>

record queueData =
  q_jobId :: nat
  q_name :: string
  q_type :: job_type
  q_payload :: string
  q_userId :: nat
  q_timeout :: int
  q_maxRetries :: int
  q_retryDelay :: "int option"
  q_retryBackoff :: "backoff_type option"
  isManualTrigger :: bool

record job_opts =
  attempts :: "int option"
  backoff :: "(backoff_type \<times> int) option"
  optPriority :: "int option"
  optDelay :: "int option"
  optJobId :: nat
  repeat :: "(string option \<times> string) option"

record queue_entry =
  entryData :: queueData
  entryOpts :: job_opts

record bullJob =
  bullData :: queueData
  attemptsMade :: nat

subsection \<open>The store, the two queues and the notifier\<close>

record world =
  jobs :: "nat \<rightharpoonup> Job"
  nextJobId :: nat
  executions :: "JobExecution list"
  logs :: "JobLog list"
  jobQueue :: "queue_entry list"
  scheduledQueue :: "queue_entry list"
  notifications :: "notification list"

datatype error =
    JobNotFound
  | JobNotPaused
  | OnlyActiveJobs
  | ExecuteTimeNotInFuture
  | InvalidCronExpression

text \<open>
  The calendar library (cron-parser) is not part of the repository: it is a parameter.
  \<open>cronParses e\<close> says that \<^verbatim>\<open>parseExpression(e)\<close> does not throw; \<open>cronNext e tz now\<close>
  is \<^verbatim>\<open>parseExpression(e, {tz}).next()\<close>, \<open>None\<close> when that throws.
\<close>

record cron_lib =
  cronParses :: "string option \<Rightarrow> bool"
  cronNext :: "string option \<Rightarrow> string \<Rightarrow> int \<Rightarrow> int option"

definition appendLog :: "nat \<Rightarrow> nat option \<Rightarrow> log_level \<Rightarrow> log_message \<Rightarrow> world \<Rightarrow> world" where
  "appendLog j e l m w =
     w\<lparr> logs := logs w @ [\<lparr> logJobId = j, logExecutionId = e, level = l, message = m \<rparr>] \<rparr>"

definition emit :: "notification \<Rightarrow> world \<Rightarrow> world" where
  "emit n w = w\<lparr> notifications := notifications w @ [n] \<rparr>"

text \<open>
  \<^verbatim>\<open>Job.findByPk(k)\<close> is \<open>jobs w k\<close>; \<^verbatim>\<open>job.save()\<close> writes the row back under the key it
  was found by.
\<close>

definition saveJob :: "nat \<Rightarrow> Job \<Rightarrow> world \<Rightarrow> world" where
  "saveJob k j w = w\<lparr> jobs := (jobs w)(k \<mapsto> j) \<rparr>"

section \<open>The queue module\<close>

text \<open>
  The module required as \<^verbatim>\<open>../queues/jobQueue\<close>. \<^verbatim>\<open>jobQueue\<close> is created with default job options taken
  from the configuration; \<^verbatim>\<open>scheduledQueue\<close> has none. A queue is the list of the entries
  added to it, with the options each entry ends up with (the defaults of its queue, then
  the options of the call, then \<^verbatim>\<open>jobId\<close>). A repeatable registration is found again by
  the job it belongs to and its cron pattern.
\<close>

definition addJob :: "job_config \<Rightarrow> queueData \<Rightarrow> int option \<Rightarrow> int option \<Rightarrow> world \<Rightarrow> world" where
  "addJob cfg qd prio dly w =
     w\<lparr> jobQueue := jobQueue w @
         [\<lparr> entryData = qd,
            entryOpts = \<lparr> attempts = Some (maxRetryAttempts cfg),
                          backoff = Some (Exponential, retryDelayMs cfg),
                          optPriority = prio, optDelay = dly,
                          optJobId = q_jobId qd, repeat = None \<rparr> \<rparr>] \<rparr>"

definition addDelayedJob :: "job_config \<Rightarrow> int \<Rightarrow> queueData \<Rightarrow> int option \<Rightarrow> world \<Rightarrow> error + world" where
  "addDelayedJob cfg now qd executeAt w =
     (let dly = (case executeAt of Some t \<Rightarrow> t | None \<Rightarrow> 0) - now
      in if dly < 0 then Inl ExecuteTimeNotInFuture
         else Inr (addJob cfg qd None (Some dly) w))"

definition addRecurringJob :: "queueData \<Rightarrow> string option \<Rightarrow> string \<Rightarrow> world \<Rightarrow> world" where
  "addRecurringJob qd cronExpr tz w =
     w\<lparr> scheduledQueue := scheduledQueue w @
         [\<lparr> entryData = qd,
            entryOpts = \<lparr> attempts = None, backoff = None, optPriority = None,
                          optDelay = None, optJobId = q_jobId qd,
                          repeat = Some (cronExpr, tz) \<rparr> \<rparr>] \<rparr>"

definition removeRecurringJob :: "nat \<Rightarrow> string option \<Rightarrow> world \<Rightarrow> world" where
  "removeRecurringJob j cronExpr w =
     w\<lparr> scheduledQueue :=
         filter (\<lambda>e. \<not> (optJobId (entryOpts e) = j
                        \<and> (case repeat (entryOpts e) of Some (c, _) \<Rightarrow> c = cronExpr | None \<Rightarrow> False)))
           (scheduledQueue w) \<rparr>"

definition queueCancelJob :: "nat \<Rightarrow> world \<Rightarrow> world" where
  "queueCancelJob j w =
     w\<lparr> jobQueue := filter (\<lambda>e. optJobId (entryOpts e) \<noteq> j) (jobQueue w) \<rparr>"

section \<open>The planner\<close>

text \<open>
  \<^verbatim>\<open>src/services/jobScheduler.js\<close>. Every operation takes the clock reading \<open>now\<close> where the
  source reads \<^verbatim>\<open>new Date()\<close> or \<^verbatim>\<open>Date.now()\<close>, and returns its result (\<open>Inl\<close> the error
  thrown) together with the state it leaves behind: what was written before a throw stays
  written.
\<close>

record jobInput =
  in_name :: string
  in_type :: job_type
  in_payload :: string
  in_scheduleType :: schedule_type
  in_scheduledAt :: "int option"
  in_cronExpression :: "string option"
  in_timezone :: "string option"
  in_maxRetries :: "int option"
  in_retryDelay :: "int option"
  in_retryBackoff :: "backoff_type option"
  in_timeout :: "int option"
  in_priority :: "int option"
  in_endAt :: "int option"
  in_maxExecutions :: "int option"

definition nullish :: "'a option \<Rightarrow> 'a \<Rightarrow> 'a" where
  "nullish v d = (case v of None \<Rightarrow> d | Some x \<Rightarrow> x)"

definition truthyStr :: "string option \<Rightarrow> bool" where
  "truthyStr s = (case s of None \<Rightarrow> False | Some t \<Rightarrow> t \<noteq> [])"

definition getNextCronExecution :: "cron_lib \<Rightarrow> string option \<Rightarrow> string \<Rightarrow> int \<Rightarrow> error + int" where
  "getNextCronExecution cl e tz now =
     (case cronNext cl e tz now of None \<Rightarrow> Inl InvalidCronExpression | Some t \<Rightarrow> Inr t)"

definition mkQueueData :: "Job \<Rightarrow> queueData" where
  "mkQueueData job =
     \<lparr> q_jobId = jid job, q_name = jname job, q_type = jtype job, q_payload = payload job,
       q_userId = userId job, q_timeout = timeout job, q_maxRetries = maxRetries job,
       q_retryDelay = Some (retryDelay job), q_retryBackoff = Some (retryBackoff job),
       isManualTrigger = False \<rparr>"

definition enqueueJob :: "job_config \<Rightarrow> int \<Rightarrow> Job \<Rightarrow> world \<Rightarrow> error + world" where
  "enqueueJob cfg now job w =
     (case scheduleType job of
        Immediate \<Rightarrow> Inr (addJob cfg (mkQueueData job) (Some (priority job)) None w)
      | Scheduled \<Rightarrow> addDelayedJob cfg now (mkQueueData job) (scheduledAt job) w
      | Recurring \<Rightarrow> Inr (addRecurringJob (mkQueueData job) (cronExpression job) (timezone job) w))"

definition newJob :: "jobInput \<Rightarrow> nat \<Rightarrow> nat \<Rightarrow> int option \<Rightarrow> Job" where
  "newJob inp uid k nextAt =
     \<lparr> jid = k, userId = uid, jname = in_name inp, jtype = in_type inp, status = Active,
       priority = nullish (in_priority inp) 0, payload = in_payload inp,
       scheduleType = in_scheduleType inp, scheduledAt = in_scheduledAt inp,
       cronExpression = in_cronExpression inp, timezone = nullish (in_timezone inp) ''UTC'',
       maxRetries = nullish (in_maxRetries inp) 3, retryDelay = nullish (in_retryDelay inp) 5000,
       retryBackoff = nullish (in_retryBackoff inp) Exponential,
       timeout = nullish (in_timeout inp) 300000,
       lastExecutedAt = None, nextExecutionAt = nextAt,
       totalExecutions = 0, successfulExecutions = 0, failedExecutions = 0,
       endAt = in_endAt inp, maxExecutions = in_maxExecutions inp \<rparr>"

definition createAndEnqueue :: "job_config \<Rightarrow> int \<Rightarrow> jobInput \<Rightarrow> nat \<Rightarrow> int option \<Rightarrow> world \<Rightarrow> (error + Job) \<times> world" where
  "createAndEnqueue cfg now inp uid nextAt w =
     (let job = newJob inp uid (nextJobId w) nextAt;
          w1 = w\<lparr> jobs := (jobs w)(nextJobId w \<mapsto> job), nextJobId := Suc (nextJobId w) \<rparr>
      in case enqueueJob cfg now job w1 of
           Inl e \<Rightarrow> (Inl e, w1)
         | Inr w2 \<Rightarrow> (Inr job, appendLog (jid job) None LvInfo LogCreated w2))"

definition scheduleJob :: "cron_lib \<Rightarrow> job_config \<Rightarrow> int \<Rightarrow> jobInput \<Rightarrow> nat \<Rightarrow> world \<Rightarrow> (error + Job) \<times> world" where
  "scheduleJob cl cfg now inp uid w =
     (if in_scheduleType inp = Recurring \<and> \<not> cronParses cl (in_cronExpression inp)
      then (Inl InvalidCronExpression, w)
      else case in_scheduleType inp of
             Immediate \<Rightarrow> createAndEnqueue cfg now inp uid (Some now) w
           | Scheduled \<Rightarrow> createAndEnqueue cfg now inp uid (in_scheduledAt inp) w
           | Recurring \<Rightarrow>
               (case getNextCronExecution cl (in_cronExpression inp) (nullish (in_timezone inp) ''UTC'') now of
                  Inl e \<Rightarrow> (Inl e, w)
                | Inr t \<Rightarrow> createAndEnqueue cfg now inp uid (Some t) w))"

definition removeFromQueue :: "Job \<Rightarrow> world \<Rightarrow> world" where
  "removeFromQueue job w =
     (if scheduleType job = Recurring \<and> truthyStr (cronExpression job)
      then removeRecurringJob (jid job) (cronExpression job) w
      else queueCancelJob (jid job) w)"

definition pauseJob :: "nat \<Rightarrow> world \<Rightarrow> (error + Job) \<times> world" where
  "pauseJob j w =
     (case jobs w j of
        None \<Rightarrow> (Inl JobNotFound, w)
      | Some job \<Rightarrow>
          (let job' = job\<lparr> status := Paused \<rparr>
           in (Inr job', appendLog (jid job) None LvInfo LogPaused (saveJob j job' (removeFromQueue job w)))))"

definition cancelJob :: "nat \<Rightarrow> world \<Rightarrow> (error + Job) \<times> world" where
  "cancelJob j w =
     (case jobs w j of
        None \<Rightarrow> (Inl JobNotFound, w)
      | Some job \<Rightarrow>
          (let job' = job\<lparr> status := Cancelled \<rparr>
           in (Inr job', appendLog (jid job) None LvInfo LogCancelled (saveJob j job' (removeFromQueue job w)))))"

definition resumeJob :: "cron_lib \<Rightarrow> job_config \<Rightarrow> int \<Rightarrow> nat \<Rightarrow> world \<Rightarrow> (error + Job) \<times> world" where
  "resumeJob cl cfg now j w =
     (case jobs w j of
        None \<Rightarrow> (Inl JobNotFound, w)
      | Some job \<Rightarrow>
          (if status job \<noteq> Paused then (Inl JobNotPaused, w)
           else (case (if scheduleType job = Recurring
                       then map_sum id Some (getNextCronExecution cl (cronExpression job) (timezone job) now)
                       else Inr (nextExecutionAt job)) of
                   Inl e \<Rightarrow> (Inl e, w)
                 | Inr nextAt \<Rightarrow>
                     (let job' = job\<lparr> nextExecutionAt := nextAt, status := Active \<rparr>;
                          w1 = saveJob j job' w
                      in (case enqueueJob cfg now job' w1 of
                            Inl e \<Rightarrow> (Inl e, w1)
                          | Inr w2 \<Rightarrow> (Inr job', appendLog (jid job) None LvInfo LogResumed w2))))))"

definition rescheduleJob :: "cron_lib \<Rightarrow> job_config \<Rightarrow> int \<Rightarrow> nat \<Rightarrow> int option \<Rightarrow> string option \<Rightarrow> string option \<Rightarrow> world \<Rightarrow> (error + Job) \<times> world" where
  "rescheduleJob cl cfg now j newAt newCron newTz w =
     (case jobs w j of
        None \<Rightarrow> (Inl JobNotFound, w)
      | Some job \<Rightarrow>
          (let w0 = queueCancelJob (jid job)
                      (if scheduleType job = Recurring \<and> truthyStr (cronExpression job)
                       then removeRecurringJob (jid job) (cronExpression job) w else w);
               upd = (case newAt of
                        Some t \<Rightarrow>
                          Inr (job\<lparr> scheduleType := Scheduled, scheduledAt := Some t,
                                    cronExpression := None, nextExecutionAt := Some t \<rparr>)
                      | None \<Rightarrow>
                          if truthyStr newCron then
                            (if \<not> cronParses cl newCron then Inl InvalidCronExpression
                             else (let tz = (case newTz of
                                               Some z \<Rightarrow> if z \<noteq> [] then z else timezone job
                                             | None \<Rightarrow> timezone job)
                                   in case getNextCronExecution cl newCron tz now of
                                        Inl e \<Rightarrow> Inl e
                                      | Inr t \<Rightarrow>
                                          Inr (job\<lparr> scheduleType := Recurring, cronExpression := newCron,
                                                    timezone := tz, scheduledAt := None,
                                                    nextExecutionAt := Some t \<rparr>)))
                          else Inr job)
           in case upd of
                Inl e \<Rightarrow> (Inl e, w0)
              | Inr job' \<Rightarrow>
                  (let w1 = saveJob j job' w0
                   in case enqueueJob cfg now job' w1 of
                        Inl e \<Rightarrow> (Inl e, w1)
                      | Inr w2 \<Rightarrow> (Inr job', appendLog (jid job) None LvInfo LogRescheduled w2))))"

definition triggerJob :: "job_config \<Rightarrow> nat \<Rightarrow> world \<Rightarrow> (error + Job) \<times> world" where
  "triggerJob cfg j w =
     (case jobs w j of
        None \<Rightarrow> (Inl JobNotFound, w)
      | Some job \<Rightarrow>
          if status job \<noteq> Active then (Inl OnlyActiveJobs, w)
          else (Inr job,
                appendLog (jid job) None LvInfo LogTriggered
                  (addJob cfg ((mkQueueData job)\<lparr> q_retryDelay := None, q_retryBackoff := None,
                                                  isManualTrigger := True \<rparr>)
                     (Some 10) None w)))"

definition updateNextExecution :: "cron_lib \<Rightarrow> int \<Rightarrow> nat \<Rightarrow> world \<Rightarrow> (error + Job option) \<times> world" where
  "updateNextExecution cl now j w =
     (case jobs w j of
        None \<Rightarrow> (Inr None, w)
      | Some job \<Rightarrow>
          (if scheduleType job \<noteq> Recurring then (Inr None, w)
           else if (case endAt job of Some e \<Rightarrow> now \<ge> e | None \<Rightarrow> False)
           then (Inr (Some (job\<lparr> status := Completed \<rparr>)), saveJob j (job\<lparr> status := Completed \<rparr>) w)
           else if (case maxExecutions job of Some m \<Rightarrow> m \<noteq> 0 \<and> totalExecutions job \<ge> m | None \<Rightarrow> False)
           then (Inr (Some (job\<lparr> status := Completed \<rparr>)), saveJob j (job\<lparr> status := Completed \<rparr>) w)
           else (case getNextCronExecution cl (cronExpression job) (timezone job) now of
                   Inl e \<Rightarrow> (Inl e, w)
                 | Inr t \<Rightarrow> (Inr (Some (job\<lparr> nextExecutionAt := Some t \<rparr>)),
                             saveJob j (job\<lparr> nextExecutionAt := Some t \<rparr>) w))))"

section \<open>The executors\<close>

text \<open>
  \<^verbatim>\<open>src/services/jobExecutor.js\<close>. The worker sees an executor only through the promise it
  returns: it resolves with a result or rejects with an error, after some time has passed.
  \<open>executeHttpJob\<close> is the way \<^verbatim>\<open>executeHttpJob\<close> settles that promise from what happens on
  the socket; the error texts are shortened to their fixed part.
\<close>

datatype exec_outcome = Resolved string int | Rejected string int

datatype http_event = HttpResponse int string | HttpError string | HttpTimeout

definition executeHttpJob :: "http_event \<Rightarrow> int \<Rightarrow> exec_outcome" where
  "executeHttpJob ev elapsed =
     (case ev of
        HttpResponse statusCode body \<Rightarrow>
          if statusCode \<ge> 200 \<and> statusCode < 300 then Resolved body elapsed
          else Rejected ''HTTP request failed with status'' elapsed
      | HttpError m \<Rightarrow> Rejected (''HTTP request failed: '' @ m) elapsed
      | HttpTimeout \<Rightarrow> Rejected ''HTTP request timed out'' elapsed)"

section \<open>The worker\<close>

text \<open>
  \<^verbatim>\<open>processJob\<close> of \<^verbatim>\<open>src/workers/jobWorker.js\<close>. \<open>now\<close> is the clock when the processor
  starts; the executor's outcome carries the time it took, and the store, the log and the
  notifier take none. The result is \<open>Inr\<close> the value returned to the queue or \<open>Inl\<close> the error
  rethrown to it. Writes to the store and to the log succeed, so the execution the \<^verbatim>\<open>catch\<close>
  block sees is never \<^verbatim>\<open>null\<close>; the notifier swallows its own errors, as \<^verbatim>\<open>notify\<close> does.
  The text of the calendar library's error is fixed to one string.
\<close>

definition effectiveMaxRetries :: "job_config \<Rightarrow> queueData \<Rightarrow> int" where
  "effectiveMaxRetries cfg jobData =
     (if q_maxRetries jobData = 0 then maxRetryAttempts cfg else q_maxRetries jobData)"

definition isLastAttempt :: "job_config \<Rightarrow> bullJob \<Rightarrow> bool" where
  "isLastAttempt cfg bj = (int (attemptsMade bj) + 1 \<ge> effectiveMaxRetries cfg (bullData bj))"

definition createExecution :: "string \<Rightarrow> int \<Rightarrow> bullJob \<Rightarrow> world \<Rightarrow> JobExecution \<times> world" where
  "createExecution wid now bj w =
     (let ex = \<lparr> eid = length (executions w), jobId = q_jobId (bullData bj), exStatus = ExRunning,
                 attempt = int (attemptsMade bj) + 1, startedAt = Some now, completedAt = None,
                 duration = None, result = None, exError = None, errorMessage = None,
                 isRetry = (attemptsMade bj > 0), previousExecutionId = None,
                 workerId = Some wid, exInput = Some (q_payload (bullData bj)), exOutput = None \<rparr>
      in (ex, w\<lparr> executions := executions w @ [ex] \<rparr>))"

definition saveExecution :: "JobExecution \<Rightarrow> world \<Rightarrow> world" where
  "saveExecution ex w = w\<lparr> executions := (executions w)[eid ex := ex] \<rparr>"

definition startAttempt :: "string \<Rightarrow> int \<Rightarrow> bullJob \<Rightarrow> world \<Rightarrow> JobExecution \<times> world" where
  "startAttempt wid now bj w =
     (let (ex, w0) = createExecution wid now bj w
      in (ex, appendLog (q_jobId (bullData bj)) (Some (eid ex)) LvInfo (LogStarted (attempt ex)) w0))"

definition completedRow :: "JobExecution \<Rightarrow> int \<Rightarrow> string \<Rightarrow> int \<Rightarrow> JobExecution" where
  "completedRow ex t res d =
     ex\<lparr> exStatus := ExCompleted, completedAt := Some t, duration := Some d,
         result := Some res, exOutput := Some res \<rparr>"

definition failedRow :: "JobExecution \<Rightarrow> int \<Rightarrow> string \<Rightarrow> int \<Rightarrow> JobExecution" where
  "failedRow ex t msg d =
     ex\<lparr> exStatus := ExFailed, completedAt := Some t, duration := Some d,
         exError := Some msg, errorMessage := Some msg \<rparr>"

text \<open>The \<^verbatim>\<open>catch\<close> block: \<open>ex\<close> is the execution as the \<^verbatim>\<open>try\<close> block left it.\<close>

definition onFailure :: "job_config \<Rightarrow> int \<Rightarrow> bullJob \<Rightarrow> JobExecution \<Rightarrow> string \<Rightarrow> int \<Rightarrow> world \<Rightarrow> world" where
  "onFailure cfg t bj ex msg d w =
     (let jobData = bullData bj;
          w1 = saveExecution (failedRow ex t msg d) w;
          w2 = (case jobs w1 (q_jobId jobData) of
                  None \<Rightarrow> w1
                | Some job \<Rightarrow>
                    (let job1 = job\<lparr> lastExecutedAt := Some t,
                                      totalExecutions := totalExecutions job + 1,
                                      failedExecutions := failedExecutions job + 1 \<rparr>
                     in if isLastAttempt cfg bj
                        then saveJob (q_jobId jobData) (job1\<lparr> status := Failed \<rparr>)
                               (emit (MaxRetriesExceededEvent (userId job) (jid job) (jname job)
                                        (effectiveMaxRetries cfg jobData) msg) w1)
                        else saveJob (q_jobId jobData) job1
                               (emit (JobRetryEvent (userId job) (jid job) (jname job)
                                        (int (attemptsMade bj) + 1)
                                        (effectiveMaxRetries cfg jobData) msg) w1)))
      in appendLog (q_jobId jobData) (Some (eid ex)) LvError
           (LogFailed msg (int (attemptsMade bj) + 1) (isLastAttempt cfg bj)) w2)"

text \<open>
  The rest of the \<^verbatim>\<open>try\<close> block once the executor has resolved. The worker's \<^verbatim>\<open>job\<close> is an
  instance read before \<^verbatim>\<open>updateNextExecution\<close> runs on an instance of its own; \<^verbatim>\<open>save()\<close>
  updates the columns the instance changed, so the worker's save puts its three columns on
  the row the planner left. A throw of \<^verbatim>\<open>updateNextExecution\<close> lands in the \<^verbatim>\<open>catch\<close> block.
\<close>

definition onSuccess :: "cron_lib \<Rightarrow> job_config \<Rightarrow> int \<Rightarrow> bullJob \<Rightarrow> JobExecution \<Rightarrow> string \<Rightarrow> int \<Rightarrow> world \<Rightarrow> (string + string) \<times> world" where
  "onSuccess cl cfg t bj ex res d w =
     (let k = q_jobId (bullData bj);
          ex1 = completedRow ex t res d;
          w2 = saveExecution ex1 w
      in case jobs w2 k of
           None \<Rightarrow> (Inr res, appendLog k (Some (eid ex)) LvInfo (LogCompleted d) w2)
         | Some job \<Rightarrow>
             if scheduleType job = Recurring then
               (case fst (updateNextExecution cl t k w2) of
                  Inl e \<Rightarrow>
                    (Inl ''Invalid cron expression'',
                     onFailure cfg t bj ex1 ''Invalid cron expression'' d
                       (snd (updateNextExecution cl t k w2)))
                | Inr _ \<Rightarrow>
                    (let w3 = snd (updateNextExecution cl t k w2);
                         row = (case jobs w3 k of Some r \<Rightarrow> r | None \<Rightarrow> job);
                         w4 = saveJob k (row\<lparr> lastExecutedAt := Some t,
                                              totalExecutions := totalExecutions job + 1,
                                              successfulExecutions := successfulExecutions job + 1 \<rparr>) w3
                     in (Inr res,
                         appendLog k (Some (eid ex)) LvInfo (LogCompleted d)
                           (emit (JobCompletedEvent (userId job) (jid job) (jname job) (eid ex) d) w4))))
             else
               (let w4 = saveJob k (job\<lparr> lastExecutedAt := Some t,
                                         totalExecutions := totalExecutions job + 1,
                                         successfulExecutions := successfulExecutions job + 1,
                                         status := Completed \<rparr>) w2
                in (Inr res,
                    appendLog k (Some (eid ex)) LvInfo (LogCompleted d)
                      (emit (JobCompletedEvent (userId job) (jid job) (jname job) (eid ex) d) w4))))"

definition processJob :: "cron_lib \<Rightarrow> job_config \<Rightarrow> string \<Rightarrow> int \<Rightarrow> bullJob \<Rightarrow> exec_outcome \<Rightarrow> world \<Rightarrow> (string + string) \<times> world" where
  "processJob cl cfg wid now bj outcome w =
     (let (ex, w1) = startAttempt wid now bj w
      in case outcome of
           Rejected msg d \<Rightarrow> (Inl msg, onFailure cfg (now + d) bj ex msg d w1)
         | Resolved res d \<Rightarrow> onSuccess cl cfg (now + d) bj ex res d w1)"

section \<open>Redelivery by the queue\<close>

text \<open>
  The worker never re-enqueues: it rethrows, and the queue library decides from the entry's
  options whether and when the envelope is delivered again. The library is not part of the
  repository; these two definitions are its rule for the options the repository sets.
  \<open>made\<close> counts the attempts made so far, the failed one included: the entry is delivered
  again while \<open>made\<close> is below \<^verbatim>\<open>attempts\<close> (never, when the option is absent), after
  \<^verbatim>\<open>delay\<close> for a fixed backoff and \<^verbatim>\<open>delay * 2 ^ (made - 1)\<close> for an exponential one.
\<close>

definition retryAllowed :: "job_opts \<Rightarrow> nat \<Rightarrow> bool" where
  "retryAllowed opts made = (case attempts opts of None \<Rightarrow> False | Some n \<Rightarrow> int made < n)"

definition backoffDelay :: "job_opts \<Rightarrow> nat \<Rightarrow> int" where
  "backoffDelay opts made =
     (case backoff opts of
        None \<Rightarrow> 0
      | Some (Fixed, d) \<Rightarrow> d
      | Some (Exponential, d) \<Rightarrow> d * 2 ^ (made - 1))"

text \<open>
  The attempts of one queue entry: each delivery comes with the clock at which it starts and
  the outcome of the executor; the chain ends on success, when the queue does not redeliver,
  or when no delivery is left.
\<close>

fun runAttempts :: "cron_lib \<Rightarrow> job_config \<Rightarrow> string \<Rightarrow> queue_entry \<Rightarrow> nat \<Rightarrow> (int \<times> exec_outcome) list \<Rightarrow> world \<Rightarrow> world" where
  "runAttempts cl cfg wid e made [] w = w"
| "runAttempts cl cfg wid e made ((now, oc) # rest) w =
     (case processJob cl cfg wid now \<lparr> bullData = entryData e, attemptsMade = made \<rparr> oc w of
        (Inr _, w') \<Rightarrow> w'
      | (Inl _, w') \<Rightarrow>
          if retryAllowed (entryOpts e) (Suc made) then runAttempts cl cfg wid e (Suc made) rest w'
          else w')"

text \<open>What the execution table shows of the attempts: the job, the attempt number and the status.\<close>

definition outcomes :: "world \<Rightarrow> (nat \<times> int \<times> execution_status) list" where
  "outcomes w = map (\<lambda>x. (jobId x, attempt x, exStatus x)) (executions w)"

section \<open>The two halves of a finalize\<close>

text \<open>
  The pool runs attempts side by side (two \<^verbatim>\<open>Worker\<close>s of concurrency 5 in
  \<^verbatim>\<open>startWorker\<close>), and a finalize is not one step: \<^verbatim>\<open>Job.findByPk\<close> hands the attempt an
  instance of the row, the attempt assigns to the instance, awaits the notifier or
  \<^verbatim>\<open>updateNextExecution\<close>, and \<^verbatim>\<open>job.save()\<close> then updates the columns whose value changed
  on the instance, with the values computed from the instance, on the row as it is by then.
  \<open>failureColumns\<close> and \<open>successColumns\<close> are those updates for the \<^verbatim>\<open>catch\<close> block and for the
  \<^verbatim>\<open>try\<close> block; \<open>inst\<close> is the instance as it was read and \<open>row\<close> the row the update meets.
\<close>

definition failureColumns :: "int \<Rightarrow> bool \<Rightarrow> Job \<Rightarrow> Job \<Rightarrow> Job" where
  "failureColumns t lastAttempt inst row =
     row\<lparr> lastExecutedAt := (if lastExecutedAt inst = Some t then lastExecutedAt row else Some t),
          totalExecutions := totalExecutions inst + 1,
          failedExecutions := failedExecutions inst + 1,
          status := (if lastAttempt \<and> status inst \<noteq> Failed then Failed else status row) \<rparr>"

definition successColumns :: "int \<Rightarrow> Job \<Rightarrow> Job \<Rightarrow> Job" where
  "successColumns t inst row =
     row\<lparr> lastExecutedAt := (if lastExecutedAt inst = Some t then lastExecutedAt row else Some t),
          totalExecutions := totalExecutions inst + 1,
          successfulExecutions := successfulExecutions inst + 1,
          status := (if scheduleType inst \<noteq> Recurring \<and> status inst \<noteq> Completed
                     then Completed else status row) \<rparr>"

definition saveInstance :: "nat \<Rightarrow> (Job \<Rightarrow> Job) \<Rightarrow> world \<Rightarrow> world" where
  "saveInstance k cols w = (case jobs w k of None \<Rightarrow> w | Some row \<Rightarrow> saveJob k (cols row) w)"

text \<open>
  An attempt in three steps, between which the steps of other deliveries may run.
  \<open>startAttempt\<close> goes up to the call of the executor. \<open>readInstance\<close> is what follows once the
  executor has settled: the save of the execution and \<^verbatim>\<open>Job.findByPk\<close>, whose instance it
  returns. \<open>writeInstance\<close> is the rest, for the instance it is given: the notifier or
  \<^verbatim>\<open>updateNextExecution\<close>, \<^verbatim>\<open>job.save()\<close> and the log. When \<^verbatim>\<open>updateNextExecution\<close> throws, the
  \<^verbatim>\<open>catch\<close> block reads the row again and runs as \<open>onFailure\<close>.
\<close>

definition readInstance :: "int \<Rightarrow> bullJob \<Rightarrow> JobExecution \<Rightarrow> exec_outcome \<Rightarrow> world \<Rightarrow> Job option \<times> world" where
  "readInstance now bj ex oc w =
     (let w1 = saveExecution (case oc of
                                Rejected msg d \<Rightarrow> failedRow ex (now + d) msg d
                              | Resolved res d \<Rightarrow> completedRow ex (now + d) res d) w
      in (jobs w1 (q_jobId (bullData bj)), w1))"

definition finishFailure :: "job_config \<Rightarrow> int \<Rightarrow> bullJob \<Rightarrow> JobExecution \<Rightarrow> string \<Rightarrow> Job option \<Rightarrow> world \<Rightarrow> world" where
  "finishFailure cfg t bj ex msg inst w =
     (let jobData = bullData bj;
          w2 = (case inst of
                  None \<Rightarrow> w
                | Some job \<Rightarrow>
                    saveInstance (q_jobId jobData) (failureColumns t (isLastAttempt cfg bj) job)
                      (emit (if isLastAttempt cfg bj
                             then MaxRetriesExceededEvent (userId job) (jid job) (jname job)
                                    (effectiveMaxRetries cfg jobData) msg
                             else JobRetryEvent (userId job) (jid job) (jname job)
                                    (int (attemptsMade bj) + 1)
                                    (effectiveMaxRetries cfg jobData) msg) w))
      in appendLog (q_jobId jobData) (Some (eid ex)) LvError
           (LogFailed msg (int (attemptsMade bj) + 1) (isLastAttempt cfg bj)) w2)"

definition finishSuccess :: "cron_lib \<Rightarrow> job_config \<Rightarrow> int \<Rightarrow> bullJob \<Rightarrow> JobExecution \<Rightarrow> string \<Rightarrow> int \<Rightarrow> Job option \<Rightarrow> world \<Rightarrow> (string + string) \<times> world" where
  "finishSuccess cl cfg t bj ex res d inst w =
     (let k = q_jobId (bullData bj)
      in case inst of
           None \<Rightarrow> (Inr res, appendLog k (Some (eid ex)) LvInfo (LogCompleted d) w)
         | Some job \<Rightarrow>
             if scheduleType job = Recurring then
               (case fst (updateNextExecution cl t k w) of
                  Inl e \<Rightarrow>
                    (Inl ''Invalid cron expression'',
                     onFailure cfg t bj (completedRow ex t res d) ''Invalid cron expression'' d
                       (snd (updateNextExecution cl t k w)))
                | Inr _ \<Rightarrow>
                    (Inr res,
                     appendLog k (Some (eid ex)) LvInfo (LogCompleted d)
                       (emit (JobCompletedEvent (userId job) (jid job) (jname job) (eid ex) d)
                          (saveInstance k (successColumns t job) (snd (updateNextExecution cl t k w))))))
             else
               (Inr res,
                appendLog k (Some (eid ex)) LvInfo (LogCompleted d)
                  (emit (JobCompletedEvent (userId job) (jid job) (jname job) (eid ex) d)
                     (saveInstance k (successColumns t job) w))))"

definition writeInstance :: "cron_lib \<Rightarrow> job_config \<Rightarrow> int \<Rightarrow> bullJob \<Rightarrow> JobExecution \<Rightarrow> exec_outcome \<Rightarrow> Job option \<Rightarrow> world \<Rightarrow> (string + string) \<times> world" where
  "writeInstance cl cfg now bj ex oc inst w =
     (case oc of
        Rejected msg d \<Rightarrow> (Inl msg, finishFailure cfg (now + d) bj ex msg inst w)
      | Resolved res d \<Rightarrow> finishSuccess cl cfg (now + d) bj ex res d inst w)"

definition counters :: "Job \<Rightarrow> int \<times> int \<times> int" where
  "counters job = (totalExecutions job, successfulExecutions job, failedExecutions job)"

definition countersOk :: "world \<Rightarrow> bool" where
  "countersOk w =
     (\<forall>k job. jobs w k = Some job \<longrightarrow>
        successfulExecutions job + failedExecutions job \<le> totalExecutions job)"

text \<open>What one finalize step does to the counters of a job.\<close>

definition finalized :: "Job \<Rightarrow> Job \<Rightarrow> bool" where
  "finalized job job' =
     (totalExecutions job' = totalExecutions job + 1 \<and>
      (successfulExecutions job' = successfulExecutions job + 1 \<and> failedExecutions job' = failedExecutions job
       \<or> successfulExecutions job' = successfulExecutions job \<and> failedExecutions job' = failedExecutions job + 1))"

section \<open>Sample data\<close>

definition emptyWorld :: world where
  "emptyWorld = \<lparr> jobs = Map.empty, nextJobId = 0, executions = [], logs = [],
                  jobQueue = [], scheduledQueue = [], notifications = [] \<rparr>"

text \<open>A calendar that fires every five minutes, whatever the expression.\<close>

definition everyFiveMinutes :: cron_lib where
  "everyFiveMinutes =
     \<lparr> cronParses = (\<lambda>e. e \<noteq> None), cronNext = (\<lambda>e tz now. Some ((now div 300000 + 1) * 300000)) \<rparr>"

definition httpInput :: jobInput where
  "httpInput =
     \<lparr> in_name = ''ping'', in_type = Http, in_payload = ''{url: http://svc/ok}'',
       in_scheduleType = Immediate, in_scheduledAt = None, in_cronExpression = None,
       in_timezone = None, in_maxRetries = None, in_retryDelay = None, in_retryBackoff = None,
       in_timeout = None, in_priority = None, in_endAt = None, in_maxExecutions = None \<rparr>"

definition sampleJob :: Job where
  "sampleJob = newJob httpInput 7 0 (Some 1000)"

definition sampleWorld :: world where
  "sampleWorld = emptyWorld\<lparr> jobs := [0 \<mapsto> sampleJob], nextJobId := 1 \<rparr>"

definition sampleBull :: "Job \<Rightarrow> nat \<Rightarrow> bullJob" where
  "sampleBull job made = \<lparr> bullData = mkQueueData job, attemptsMade = made \<rparr>"

definition worldWith :: "Job \<Rightarrow> world" where
  "worldWith job = emptyWorld\<lparr> jobs := [0 \<mapsto> job], nextJobId := 1 \<rparr>"

definition recurringJob :: Job where
  "recurringJob =
     sampleJob\<lparr> scheduleType := Recurring, cronExpression := Some ''*/5 * * * *'',
                maxRetries := 1, nextExecutionAt := Some 300000, endAt := Some 500 \<rparr>"

definition fixedDelayInput :: jobInput where
  "fixedDelayInput = httpInput\<lparr> in_retryDelay := Some 1000, in_retryBackoff := Some Fixed \<rparr>"

definition shortTimeoutJob :: Job where
  "shortTimeoutJob = sampleJob\<lparr> timeout := 1000 \<rparr>"

definition pastInput :: jobInput where
  "pastInput = httpInput\<lparr> in_scheduleType := Scheduled, in_scheduledAt := Some 90000 \<rparr>"

definition retryTwiceInput :: jobInput where
  "retryTwiceInput = httpInput\<lparr> in_maxRetries := Some 2 \<rparr>"

definition retryFiveInput :: jobInput where
  "retryFiveInput = httpInput\<lparr> in_maxRetries := Some 5 \<rparr>"


definition recurringInput :: "int \<Rightarrow> jobInput" where
  "recurringInput n =
     httpInput\<lparr> in_scheduleType := Recurring, in_cronExpression := Some ''*/5 * * * *'',
                in_maxRetries := Some n \<rparr>"

text \<open>Four deliveries, each answered with a 500.\<close>

definition fourFailures :: "(int \<times> exec_outcome) list" where
  "fourFailures =
     [(1000, executeHttpJob (HttpResponse 500 ''oops'') 20),
      (6020, executeHttpJob (HttpResponse 500 ''oops'') 20),
      (16040, executeHttpJob (HttpResponse 500 ''oops'') 20),
      (36060, executeHttpJob (HttpResponse 500 ''oops'') 20)]"

text \<open>
  A recurring job is created, a fire of its registration is delivered, and the job is
  triggered by hand while the fire runs. The fire is answered with a 500 and the manual run
  with a 200. In \<open>serialRun\<close> the fire is through before the manual run starts; in
  \<open>overlapRun\<close> both have read the job row before either saves it.
\<close>

definition serialRun :: world where
  "serialRun =
     (let w0 = snd (scheduleJob everyFiveMinutes default_config 1000 (recurringInput 3) 7 emptyWorld);
          fire = \<lparr> bullData = entryData (last (scheduledQueue w0)), attemptsMade = 0 \<rparr>;
          w1 = snd (triggerJob default_config 0 w0);
          manual = \<lparr> bullData = entryData (last (jobQueue w1)), attemptsMade = 0 \<rparr>;
          w2 = snd (processJob everyFiveMinutes default_config ''w1'' 300000 fire
                      (executeHttpJob (HttpResponse 500 ''oops'') 20) w1)
      in snd (processJob everyFiveMinutes default_config ''w1'' 300025 manual
                (executeHttpJob (HttpResponse 200 ''ok'') 30) w2))"

definition overlapRun :: world where
  "overlapRun =
     (let w0 = snd (scheduleJob everyFiveMinutes default_config 1000 (recurringInput 3) 7 emptyWorld);
          fire = \<lparr> bullData = entryData (last (scheduledQueue w0)), attemptsMade = 0 \<rparr>;
          w1 = snd (triggerJob default_config 0 w0);
          manual = \<lparr> bullData = entryData (last (jobQueue w1)), attemptsMade = 0 \<rparr>;
          failing = executeHttpJob (HttpResponse 500 ''oops'') 20;
          passing = executeHttpJob (HttpResponse 200 ''ok'') 30;
          (exA, w2) = startAttempt ''w1'' 300000 fire w1;
          (exB, w3) = startAttempt ''w1'' 300005 manual w2;
          (instA, w4) = readInstance 300000 fire exA failing w3;
          (instB, w5) = readInstance 300005 manual exB passing w4;
          w6 = snd (writeInstance everyFiveMinutes default_config 300000 fire exA failing instA w5)
      in snd (writeInstance everyFiveMinutes default_config 300005 manual exB passing instB w6))"

section \<open>What each step leaves alone\<close>

lemma executions_appendLog [simp]: "executions (appendLog j e l m w) = executions w"
  by (simp add: appendLog_def)
lemma executions_emit [simp]: "executions (emit n w) = executions w"
  by (simp add: emit_def)
lemma executions_saveJob [simp]: "executions (saveJob k j w) = executions w"
  by (simp add: saveJob_def)
lemma jobs_appendLog [simp]: "jobs (appendLog j e l m w) = jobs w"
  by (simp add: appendLog_def)
lemma jobs_emit [simp]: "jobs (emit n w) = jobs w"
  by (simp add: emit_def)
lemma jobs_saveJob [simp]: "jobs (saveJob k j w) = (jobs w)(k \<mapsto> j)"
  by (simp add: saveJob_def)
lemma jobs_saveExecution [simp]: "jobs (saveExecution ex w) = jobs w"
  by (simp add: saveExecution_def)
lemma executions_saveExecution [simp]: "executions (saveExecution ex w) = (executions w)[eid ex := ex]"
  by (simp add: saveExecution_def)
lemma notifications_appendLog [simp]: "notifications (appendLog j e l m w) = notifications w"
  by (simp add: appendLog_def)
lemma notifications_emit [simp]: "notifications (emit n w) = notifications w @ [n]"
  by (simp add: emit_def)
lemma notifications_saveJob [simp]: "notifications (saveJob k j w) = notifications w"
  by (simp add: saveJob_def)
lemma notifications_saveExecution [simp]: "notifications (saveExecution ex w) = notifications w"
  by (simp add: saveExecution_def)
lemma jobs_addJob [simp]: "jobs (addJob cfg qd p dl w) = jobs w"
  by (simp add: addJob_def)
lemma jobs_addRecurringJob [simp]: "jobs (addRecurringJob qd c tz w) = jobs w"
  by (simp add: addRecurringJob_def)
lemma jobs_removeRecurringJob [simp]: "jobs (removeRecurringJob j c w) = jobs w"
  by (simp add: removeRecurringJob_def)
lemma jobs_queueCancelJob [simp]: "jobs (queueCancelJob j w) = jobs w"
  by (simp add: queueCancelJob_def)
lemma jobs_removeFromQueue [simp]: "jobs (removeFromQueue job w) = jobs w"
  by (simp add: removeFromQueue_def)
lemma jobs_enqueueJob: "enqueueJob cfg now job w = Inr w' \<Longrightarrow> jobs w' = jobs w"
  by (auto simp add: enqueueJob_def addDelayedJob_def Let_def split: schedule_type.splits if_splits)

lemma eid_completedRow [simp]: "eid (completedRow ex t res d) = eid ex"
  by (simp add: completedRow_def)
lemma eid_failedRow [simp]: "eid (failedRow ex t msg d) = eid ex"
  by (simp add: failedRow_def)

section \<open>Facts about the advance of a recurring job\<close>

lemma executions_updateNextExecution [simp]:
  "executions (snd (updateNextExecution cl now j w)) = executions w"
  by (simp add: updateNextExecution_def split: option.splits sum.splits)

lemma notifications_updateNextExecution [simp]:
  "notifications (snd (updateNextExecution cl now j w)) = notifications w"
  by (simp add: updateNextExecution_def split: option.splits sum.splits)

lemma updateNextExecution_absent:
  "jobs w j = None \<Longrightarrow> jobs (snd (updateNextExecution cl now j w)) = jobs w"
  by (simp add: updateNextExecution_def)

lemma updateNextExecution_other:
  "k \<noteq> j \<Longrightarrow> jobs (snd (updateNextExecution cl now j w)) k = jobs w k"
  by (auto simp add: updateNextExecution_def split: option.splits sum.splits if_splits)

lemma updateNextExecution_row:
  "jobs w j = Some job \<Longrightarrow>
   \<exists>row. jobs (snd (updateNextExecution cl now j w)) j = Some row \<and> counters row = counters job"
  by (auto simp add: updateNextExecution_def counters_def split: option.splits sum.splits if_splits)

lemma updateNextExecution_Inl:
  "fst (updateNextExecution cl now j w) = Inl e \<Longrightarrow> snd (updateNextExecution cl now j w) = w"
  by (auto simp add: updateNextExecution_def split: option.splits sum.splits if_splits)

section \<open>Facts about one attempt\<close>

lemma startAttempt_eid [simp]: "eid (fst (startAttempt wid now bj w)) = length (executions w)"
  by (simp add: startAttempt_def createExecution_def Let_def)
lemma startAttempt_executions [simp]:
  "executions (snd (startAttempt wid now bj w)) = executions w @ [fst (startAttempt wid now bj w)]"
  by (simp add: startAttempt_def createExecution_def Let_def)
lemma startAttempt_jobs [simp]: "jobs (snd (startAttempt wid now bj w)) = jobs w"
  by (simp add: startAttempt_def createExecution_def Let_def)
lemma startAttempt_notifications [simp]: "notifications (snd (startAttempt wid now bj w)) = notifications w"
  by (simp add: startAttempt_def createExecution_def Let_def)
lemma startAttempt_row:
  "fst (startAttempt wid now bj w) = fst (createExecution wid now bj w)"
  by (simp add: startAttempt_def createExecution_def Let_def)

lemma processJob_Rejected:
  "processJob cl cfg wid now bj (Rejected msg d) w =
     (Inl msg, onFailure cfg (now + d) bj (fst (startAttempt wid now bj w)) msg d
                 (snd (startAttempt wid now bj w)))"
  by (simp add: processJob_def case_prod_beta)

lemma processJob_Resolved:
  "processJob cl cfg wid now bj (Resolved res d) w =
     onSuccess cl cfg (now + d) bj (fst (startAttempt wid now bj w)) res d
       (snd (startAttempt wid now bj w))"
  by (simp add: processJob_def case_prod_beta)

lemma executions_onFailure:
  "executions (onFailure cfg t bj ex msg d w) = (executions w)[eid ex := failedRow ex t msg d]"
  by (simp add: onFailure_def Let_def split: option.splits)

lemma jobs_onFailure_None:
  "jobs w (q_jobId (bullData bj)) = None \<Longrightarrow> jobs (onFailure cfg t bj ex msg d w) = jobs w"
  by (simp add: onFailure_def Let_def)

lemma jobs_onFailure_Some:
  "jobs w (q_jobId (bullData bj)) = Some job \<Longrightarrow>
   jobs (onFailure cfg t bj ex msg d w) =
     (jobs w)(q_jobId (bullData bj) \<mapsto>
        (job\<lparr> lastExecutedAt := Some t, totalExecutions := totalExecutions job + 1,
               failedExecutions := failedExecutions job + 1,
               status := (if isLastAttempt cfg bj then Failed else status job) \<rparr>))"
  by (simp add: onFailure_def Let_def)

lemma notifications_onFailure_None:
  "jobs w (q_jobId (bullData bj)) = None \<Longrightarrow>
   notifications (onFailure cfg t bj ex msg d w) = notifications w"
  by (simp add: onFailure_def Let_def)

lemma notifications_onFailure_Some:
  "jobs w (q_jobId (bullData bj)) = Some job \<Longrightarrow>
   notifications (onFailure cfg t bj ex msg d w) =
     notifications w @
       [if isLastAttempt cfg bj
        then MaxRetriesExceededEvent (userId job) (jid job) (jname job) (effectiveMaxRetries cfg (bullData bj)) msg
        else JobRetryEvent (userId job) (jid job) (jname job) (int (attemptsMade bj) + 1)
               (effectiveMaxRetries cfg (bullData bj)) msg]"
  by (simp add: onFailure_def Let_def)

lemma executions_onSuccess:
  "executions (snd (onSuccess cl cfg t bj ex res d w)) =
     (executions w)[eid ex := completedRow ex t res d]
   \<or> executions (snd (onSuccess cl cfg t bj ex res d w)) =
     (executions w)[eid ex := failedRow (completedRow ex t res d) t ''Invalid cron expression'' d]"
  by (auto simp add: onSuccess_def Let_def executions_onFailure split: option.splits sum.splits)

lemma onSuccess_nonrecurring:
  "jobs w (q_jobId (bullData bj)) = Some job \<Longrightarrow> scheduleType job \<noteq> Recurring \<Longrightarrow>
   fst (onSuccess cl cfg t bj ex res d w) = Inr res
   \<and> executions (snd (onSuccess cl cfg t bj ex res d w)) = (executions w)[eid ex := completedRow ex t res d]
   \<and> jobs (snd (onSuccess cl cfg t bj ex res d w)) =
       (jobs w)(q_jobId (bullData bj) \<mapsto> job\<lparr> lastExecutedAt := Some t,
                                        totalExecutions := totalExecutions job + 1,
                                        successfulExecutions := successfulExecutions job + 1,
                                        status := Completed \<rparr>)
   \<and> notifications (snd (onSuccess cl cfg t bj ex res d w)) =
       notifications w @ [JobCompletedEvent (userId job) (jid job) (jname job) (eid ex) d]"
  by (simp add: onSuccess_def Let_def)

lemma jobs_onSuccess_None:
  "jobs w (q_jobId (bullData bj)) = None \<Longrightarrow> jobs (snd (onSuccess cl cfg t bj ex res d w)) = jobs w"
  by (simp add: onSuccess_def Let_def)

lemma onSuccess_other:
  "k \<noteq> q_jobId (bullData bj) \<Longrightarrow> jobs (snd (onSuccess cl cfg t bj ex res d w)) k = jobs w k"
  by (auto simp add: onSuccess_def Let_def onFailure_def updateNextExecution_other split: option.splits sum.splits)

lemma onFailure_other:
  "k \<noteq> q_jobId (bullData bj) \<Longrightarrow> jobs (onFailure cfg t bj ex msg d w) k = jobs w k"
  by (auto simp add: onFailure_def Let_def split: option.splits)

lemma onSuccess_finalizes:
  assumes "jobs w (q_jobId (bullData bj)) = Some job"
  shows "\<exists>job'. jobs (snd (onSuccess cl cfg t bj ex res d w)) (q_jobId (bullData bj)) = Some job'
               \<and> finalized job job'"
proof (cases "scheduleType job = Recurring")
  case False
  then show ?thesis using assms by (simp add: onSuccess_nonrecurring finalized_def)
next
  case True
  let ?k = "q_jobId (bullData bj)"
  let ?w2 = "saveExecution (completedRow ex t res d) w"
  have j2: "jobs ?w2 ?k = Some job" using assms by simp
  obtain row where row: "jobs (snd (updateNextExecution cl t ?k ?w2)) ?k = Some row"
      and cnt: "counters row = counters job"
    using updateNextExecution_row [OF j2] by blast
  show ?thesis
  proof (cases "fst (updateNextExecution cl t ?k ?w2)")
    case (Inl e)
    then show ?thesis using assms True j2
      by (simp add: onSuccess_def Let_def updateNextExecution_Inl jobs_onFailure_Some finalized_def)
  next
    case (Inr r)
    then show ?thesis using assms True row cnt
      by (simp add: onSuccess_def Let_def finalized_def counters_def)
  qed
qed

lemma onFailure_finalizes:
  assumes "jobs w (q_jobId (bullData bj)) = Some job"
  shows "\<exists>job'. jobs (onFailure cfg t bj ex msg d w) (q_jobId (bullData bj)) = Some job'
               \<and> finalized job job'"
  using assms by (simp add: jobs_onFailure_Some finalized_def)

lemma processJob_finalizes:
  assumes "jobs w (q_jobId (bullData bj)) = Some job"
  shows "\<exists>job'. jobs (snd (processJob cl cfg wid now bj oc w)) (q_jobId (bullData bj)) = Some job'
               \<and> finalized job job'"
proof (cases oc)
  case (Rejected msg d)
  then show ?thesis using onFailure_finalizes [of "snd (startAttempt wid now bj w)" bj job] assms
    by (simp add: processJob_Rejected)
next
  case (Resolved res d)
  then show ?thesis using onSuccess_finalizes [of "snd (startAttempt wid now bj w)" bj job] assms
    by (simp add: processJob_Resolved)
qed

lemma processJob_other:
  "k \<noteq> q_jobId (bullData bj) \<Longrightarrow> jobs (snd (processJob cl cfg wid now bj oc w)) k = jobs w k"
  by (cases oc) (simp_all add: processJob_Rejected processJob_Resolved onFailure_other onSuccess_other)

lemma processJob_absent:
  "jobs w (q_jobId (bullData bj)) = None \<Longrightarrow> jobs (snd (processJob cl cfg wid now bj oc w)) = jobs w"
  by (cases oc) (simp_all add: processJob_Rejected processJob_Resolved jobs_onFailure_None jobs_onSuccess_None)


section \<open>Counters, one call at a time\<close>

lemma counters_pauseJob: "map_option counters (jobs (snd (pauseJob j w)) k) = map_option counters (jobs w k)"
  by (cases "jobs w j") (simp_all add: pauseJob_def Let_def counters_def)

lemma counters_cancelJob: "map_option counters (jobs (snd (cancelJob j w)) k) = map_option counters (jobs w k)"
  by (cases "jobs w j") (simp_all add: cancelJob_def Let_def counters_def)

lemma counters_triggerJob: "map_option counters (jobs (snd (triggerJob cfg j w)) k) = map_option counters (jobs w k)"
  by (cases "jobs w j") (simp_all add: triggerJob_def)

lemma counters_updateNextExecution:
  "map_option counters (jobs (snd (updateNextExecution cl now j w)) k) = map_option counters (jobs w k)"
proof (cases "jobs w j")
  case None
  then show ?thesis by (simp add: updateNextExecution_absent)
next
  case (Some job)
  show ?thesis
  proof (cases "k = j")
    case False
    then show ?thesis by (simp add: updateNextExecution_other)
  next
    case True
    with Some updateNextExecution_row [OF Some, of cl now] show ?thesis by auto
  qed
qed

lemma jobs_after_enqueue:
  "jobs (snd (case enqueueJob cfg now job w of
                Inl e \<Rightarrow> (Inl e, w)
              | Inr w2 \<Rightarrow> (Inr r, appendLog j x l m w2))) = jobs w"
  by (cases "enqueueJob cfg now job w") (simp_all add: jobs_enqueueJob)


lemma counters_resumeJob:
  "map_option counters (jobs (snd (resumeJob cl cfg now j w)) k) = map_option counters (jobs w k)"
proof (cases "jobs w j")
  case None
  then show ?thesis by (simp add: resumeJob_def)
next
  case (Some job)
  show ?thesis
  proof (cases "status job = Paused")
    case False
    with Some show ?thesis by (simp add: resumeJob_def)
  next
    case True
    show ?thesis
    proof (cases "if scheduleType job = Recurring
                  then map_sum id Some (getNextCronExecution cl (cronExpression job) (timezone job) now)
                  else Inr (nextExecutionAt job)")
      case (Inl e)
      with Some True show ?thesis by (simp add: resumeJob_def)
    next
      case (Inr nextAt)
      with Some True show ?thesis
        by (simp add: resumeJob_def Let_def jobs_after_enqueue counters_def)
    qed
  qed
qed

lemma counters_rescheduleJob:
  "map_option counters (jobs (snd (rescheduleJob cl cfg now j a c z w)) k) = map_option counters (jobs w k)"
proof (cases "jobs w j")
  case None
  then show ?thesis by (simp add: rescheduleJob_def)
next
  case (Some job)
  let ?w0 = "queueCancelJob (jid job)
               (if scheduleType job = Recurring \<and> truthyStr (cronExpression job)
                then removeRecurringJob (jid job) (cronExpression job) w else w)"
  let ?upd = "(case a of
                 Some t \<Rightarrow>
                   Inr (job\<lparr> scheduleType := Scheduled, scheduledAt := Some t,
                             cronExpression := None, nextExecutionAt := Some t \<rparr>)
               | None \<Rightarrow>
                   if truthyStr c then
                     (if \<not> cronParses cl c then Inl InvalidCronExpression
                      else (let tz = (case z of
                                        Some z' \<Rightarrow> if z' \<noteq> [] then z' else timezone job
                                      | None \<Rightarrow> timezone job)
                            in case getNextCronExecution cl c tz now of
                                 Inl e \<Rightarrow> Inl e
                               | Inr t \<Rightarrow>
                                   Inr (job\<lparr> scheduleType := Recurring, cronExpression := c,
                                             timezone := tz, scheduledAt := None,
                                             nextExecutionAt := Some t \<rparr>)))
                   else Inr job)"
  have w0: "jobs ?w0 = jobs w" by simp
  have cnt: "\<And>job'. ?upd = Inr job' \<Longrightarrow> counters job' = counters job"
    by (auto simp add: counters_def Let_def split: option.splits if_splits sum.splits)
  show ?thesis
  proof (cases ?upd)
    case (Inl e)
    with Some w0 show ?thesis by (simp add: rescheduleJob_def Let_def)
  next
    case (Inr job')
    with Some w0 cnt [OF Inr] show ?thesis
      by (simp add: rescheduleJob_def Let_def jobs_after_enqueue)
  qed
qed

lemma jobs_createAndEnqueue:
  "jobs (snd (createAndEnqueue cfg now inp uid nextAt w)) =
     (jobs w)(nextJobId w \<mapsto> newJob inp uid (nextJobId w) nextAt)"
  by (simp add: createAndEnqueue_def Let_def jobs_after_enqueue)

lemma jobs_scheduleJob:
  "jobs (snd (scheduleJob cl cfg now inp uid w)) = jobs w
   \<or> (\<exists>nextAt. jobs (snd (scheduleJob cl cfg now inp uid w)) =
         (jobs w)(nextJobId w \<mapsto> newJob inp uid (nextJobId w) nextAt))"
  by (cases "in_scheduleType inp";
      cases "getNextCronExecution cl (in_cronExpression inp) (nullish (in_timezone inp) ''UTC'') now")
     (auto simp add: scheduleJob_def jobs_createAndEnqueue)

lemma counters_newJob: "counters (newJob inp uid k nextAt) = (0, 0, 0)"
  by (simp add: newJob_def counters_def)

lemma counters_scheduleJob:
  "k \<noteq> nextJobId w \<Longrightarrow>
   map_option counters (jobs (snd (scheduleJob cl cfg now inp uid w)) k) = map_option counters (jobs w k)"
  using jobs_scheduleJob [of cl cfg now inp uid w] by auto

lemma finalized_ok:
  "finalized job job' \<Longrightarrow> successfulExecutions job + failedExecutions job \<le> totalExecutions job \<Longrightarrow>
   successfulExecutions job' + failedExecutions job' \<le> totalExecutions job'"
  by (auto simp add: finalized_def)

lemma countersOk_from_counters:
  assumes ok: "countersOk w"
      and same: "\<And>k. map_option counters (jobs w' k) = map_option counters (jobs w k)"
  shows "countersOk w'"
  unfolding countersOk_def
proof (intro allI impI)
  fix k job' assume j': "jobs w' k = Some job'"
  with same [of k] obtain job where j: "jobs w k = Some job" and c: "counters job = counters job'"
    by (cases "jobs w k") auto
  from ok j have "successfulExecutions job + failedExecutions job \<le> totalExecutions job"
    by (simp add: countersOk_def)
  with c show "successfulExecutions job' + failedExecutions job' \<le> totalExecutions job'"
    by (simp add: counters_def)
qed

lemma countersOk_scheduleJob:
  assumes ok: "countersOk w"
  shows "countersOk (snd (scheduleJob cl cfg now inp uid w))"
  unfolding countersOk_def
proof (intro allI impI)
  fix k job' assume j': "jobs (snd (scheduleJob cl cfg now inp uid w)) k = Some job'"
  show "successfulExecutions job' + failedExecutions job' \<le> totalExecutions job'"
  proof (cases "jobs w k = Some job'")
    case True
    with ok show ?thesis by (simp add: countersOk_def)
  next
    case False
    with j' jobs_scheduleJob [of cl cfg now inp uid w]
    obtain nextAt where "job' = newJob inp uid (nextJobId w) nextAt"
      by (auto split: if_splits)
    then show ?thesis by (simp add: newJob_def)
  qed
qed

lemma countersOk_processJob:
  assumes ok: "countersOk w"
  shows "countersOk (snd (processJob cl cfg wid now bj oc w))"
  unfolding countersOk_def
proof (intro allI impI)
  fix k job' assume j': "jobs (snd (processJob cl cfg wid now bj oc w)) k = Some job'"
  show "successfulExecutions job' + failedExecutions job' \<le> totalExecutions job'"
  proof (cases "k = q_jobId (bullData bj)")
    case False
    with j' have "jobs w k = Some job'" by (simp add: processJob_other)
    with ok show ?thesis by (simp add: countersOk_def)
  next
    case True
    show ?thesis
    proof (cases "jobs w k")
      case None
      with True j' show ?thesis by (simp add: processJob_absent)
    next
      case (Some job)
      with True obtain job2 where "jobs (snd (processJob cl cfg wid now bj oc w)) k = Some job2"
          and f: "finalized job job2"
        using processJob_finalizes [of w bj job cl cfg wid now oc] by auto
      with j' have "job2 = job'" by simp
      moreover from ok Some have "successfulExecutions job + failedExecutions job \<le> totalExecutions job"
        by (simp add: countersOk_def)
      ultimately show ?thesis using f finalized_ok by blast
    qed
  qed
qed

section \<open>Sample rows\<close>

lemma worldWith_row: "jobs (worldWith job) 0 = Some job"
  by (simp add: worldWith_def emptyWorld_def)

lemma sampleBull_key: "q_jobId (bullData (sampleBull sampleJob n)) = 0"
  by (simp add: sampleBull_def mkQueueData_def sampleJob_def newJob_def)

section \<open>Terminal transitions\<close>

lemma recurring_key: "q_jobId (bullData (sampleBull recurringJob n)) = 0"
  by (simp add: sampleBull_def mkQueueData_def recurringJob_def sampleJob_def newJob_def)

lemma recurring_last: "isLastAttempt cfg (sampleBull recurringJob n)"
  by (simp add: isLastAttempt_def effectiveMaxRetries_def sampleBull_def mkQueueData_def recurringJob_def)

text \<open>
  C2, as the code has it. Cancelling a job, the end-condition advance of a recurring job and
  the final failed attempt set the status to \<open>Cancelled\<close>, \<open>Completed\<close> and \<open>Failed\<close> and leave
  \<open>nextExecutionAt\<close> as it was: it is null afterwards only if it was null before.
\<close>

theorem terminal_status_keeps_next_execution:
  assumes "jobs w j = Some job"
  shows "map_option (\<lambda>r. (status r, nextExecutionAt r)) (jobs (snd (cancelJob j w)) j)
           = Some (Cancelled, nextExecutionAt job)
       \<and> (scheduleType job = Recurring
            \<and> ((case endAt job of Some e \<Rightarrow> e \<le> now | None \<Rightarrow> False)
               \<or> (case maxExecutions job of Some m \<Rightarrow> m \<noteq> 0 \<and> m \<le> totalExecutions job | None \<Rightarrow> False))
          \<longrightarrow> map_option (\<lambda>r. (status r, nextExecutionAt r)) (jobs (snd (updateNextExecution cl now j w)) j)
                = Some (Completed, nextExecutionAt job))
       \<and> (q_jobId (bullData bj) = j \<and> isLastAttempt cfg bj
          \<longrightarrow> map_option (\<lambda>r. (status r, nextExecutionAt r))
                  (jobs (snd (processJob cl cfg wid now bj (Rejected msg d) w)) j)
                = Some (Failed, nextExecutionAt job))"
proof (intro conjI impI)
  show "map_option (\<lambda>r. (status r, nextExecutionAt r)) (jobs (snd (cancelJob j w)) j)
           = Some (Cancelled, nextExecutionAt job)"
    using assms by (simp add: cancelJob_def Let_def)
next
  assume "scheduleType job = Recurring
            \<and> ((case endAt job of Some e \<Rightarrow> e \<le> now | None \<Rightarrow> False)
               \<or> (case maxExecutions job of Some m \<Rightarrow> m \<noteq> 0 \<and> m \<le> totalExecutions job | None \<Rightarrow> False))"
  then show "map_option (\<lambda>r. (status r, nextExecutionAt r)) (jobs (snd (updateNextExecution cl now j w)) j)
                = Some (Completed, nextExecutionAt job)"
    using assms by (auto simp add: updateNextExecution_def split: option.splits)
next
  assume "q_jobId (bullData bj) = j \<and> isLastAttempt cfg bj"
  then show "map_option (\<lambda>r. (status r, nextExecutionAt r))
                  (jobs (snd (processJob cl cfg wid now bj (Rejected msg d) w)) j)
                = Some (Failed, nextExecutionAt job)"
    using assms by (auto simp add: processJob_Rejected jobs_onFailure_Some)
qed

text \<open>A cancelled job keeps the \<open>nextExecutionAt\<close> it had.\<close>

theorem cancelled_keeps_next_execution_counterexample:
  "map_option status (jobs (snd (cancelJob 0 sampleWorld)) 0) = Some Cancelled
   \<and> map_option nextExecutionAt (jobs (snd (cancelJob 0 sampleWorld)) 0) = Some (Some 1000)"
  by (simp add: cancelJob_def Let_def sampleWorld_def emptyWorld_def sampleJob_def newJob_def)

theorem terminal_status_keeps_next_execution_witness:
  "jobs (worldWith recurringJob) 0 = Some recurringJob
   \<and> scheduleType recurringJob = Recurring
   \<and> (case endAt recurringJob of Some e \<Rightarrow> e \<le> 1000 | None \<Rightarrow> False)
   \<and> q_jobId (bullData (sampleBull recurringJob 0)) = 0
   \<and> isLastAttempt default_config (sampleBull recurringJob 0)
   \<and> map_option (\<lambda>r. (status r, nextExecutionAt r)) (jobs (snd (cancelJob 0 (worldWith recurringJob))) 0)
       = Some (Cancelled, Some 300000)
   \<and> map_option (\<lambda>r. (status r, nextExecutionAt r))
        (jobs (snd (updateNextExecution everyFiveMinutes 1000 0 (worldWith recurringJob))) 0)
       = Some (Completed, Some 300000)
   \<and> map_option (\<lambda>r. (status r, nextExecutionAt r))
        (jobs (snd (processJob everyFiveMinutes default_config ''w1'' 1000 (sampleBull recurringJob 0)
                      (Rejected ''boom'' 20) (worldWith recurringJob))) 0)
       = Some (Failed, Some 300000)"
proof -
  have row: "jobs (worldWith recurringJob) 0 = Some recurringJob"
    by (simp add: worldWith_def emptyWorld_def)
  have flds: "scheduleType recurringJob = Recurring" "nextExecutionAt recurringJob = Some 300000"
      "endAt recurringJob = Some 500"
    by (simp_all add: recurringJob_def)
  show ?thesis
    using terminal_status_keeps_next_execution [OF row, of 1000 everyFiveMinutes
        "sampleBull recurringJob 0" default_config "''w1''" "''boom''" 20]
      row flds recurring_key [of 0] recurring_last [of default_config 0]
    by simp
qed

section \<open>A successful first attempt\<close>

lemma scheduleJob_immediate:
  assumes "in_scheduleType inp = Immediate"
  shows "scheduleJob cl cfg t0 inp uid w =
     (Inr (newJob inp uid (nextJobId w) (Some t0)),
      appendLog (nextJobId w) None LvInfo LogCreated
        (addJob cfg (mkQueueData (newJob inp uid (nextJobId w) (Some t0)))
           (Some (priority (newJob inp uid (nextJobId w) (Some t0)))) None
           (w\<lparr> jobs := (jobs w)(nextJobId w \<mapsto> newJob inp uid (nextJobId w) (Some t0)),
               nextJobId := Suc (nextJobId w) \<rparr>)))"
  using assms
  by (simp add: scheduleJob_def createAndEnqueue_def enqueueJob_def Let_def newJob_def)

lemma executions_addJob [simp]: "executions (addJob cfg qd p dl w) = executions w"
  by (simp add: addJob_def)

lemma jobQueue_appendLog [simp]: "jobQueue (appendLog j e l m w) = jobQueue w"
  by (simp add: appendLog_def)

lemma eid_createExecution [simp]: "eid (fst (createExecution wid now bj w)) = length (executions w)"
  by (simp add: createExecution_def Let_def)

lemma processJob_success_nonrecurring:
  assumes "jobs w (q_jobId (bullData bj)) = Some job" and "scheduleType job \<noteq> Recurring"
  shows "fst (processJob cl cfg wid now bj (Resolved res d) w) = Inr res
       \<and> executions (snd (processJob cl cfg wid now bj (Resolved res d) w)) =
           executions w @ [completedRow (fst (createExecution wid now bj w)) (now + d) res d]
       \<and> jobs (snd (processJob cl cfg wid now bj (Resolved res d) w)) =
           (jobs w)(q_jobId (bullData bj) \<mapsto> job\<lparr> lastExecutedAt := Some (now + d),
                                        totalExecutions := totalExecutions job + 1,
                                        successfulExecutions := successfulExecutions job + 1,
                                        status := Completed \<rparr>)"
proof -
  have row: "jobs (snd (startAttempt wid now bj w)) (q_jobId (bullData bj)) = Some job"
    using assms by simp
  show ?thesis
    using onSuccess_nonrecurring [OF row assms(2), of cl cfg "now + d" "fst (startAttempt wid now bj w)" res d]
    by (simp add: processJob_Resolved startAttempt_row)
qed

lemma runAttempts_success:
  assumes "jobs w (q_jobId (entryData e)) = Some job" and "scheduleType job \<noteq> Recurring"
  shows "runAttempts cl cfg wid e made ((now, Resolved res d) # rest) w =
           snd (processJob cl cfg wid now \<lparr> bullData = entryData e, attemptsMade = made \<rparr> (Resolved res d) w)"
proof -
  have "fst (processJob cl cfg wid now \<lparr> bullData = entryData e, attemptsMade = made \<rparr> (Resolved res d) w) = Inr res"
    using processJob_success_nonrecurring [of w "\<lparr> bullData = entryData e, attemptsMade = made \<rparr>" job] assms
    by simp
  then show ?thesis
    by (simp add: case_prod_beta)
qed

text \<open>
  C4. An immediate job is created and its first attempt succeeds: the attempt chain of its
  queue entry produces exactly one Execution, completed, with \<open>attempt = 1\<close>, \<open>completedAt\<close>,
  \<open>duration\<close> and \<open>result\<close> set, and the job ends \<open>Completed\<close> with \<open>successfulExecutions = 1\<close>,
  \<open>totalExecutions = 1\<close> and \<open>lastExecutedAt\<close> set. More generally a successful attempt moves
  every non-recurring job to \<open>Completed\<close>.
\<close>

theorem immediate_job_success:
  assumes "in_scheduleType inp = Immediate"
  shows "let (r, w1) = scheduleJob cl cfg t0 inp uid w;
             job = newJob inp uid (nextJobId w) (Some t0);
             e = last (jobQueue w1);
             w2 = runAttempts cl cfg wid e 0 ((now, Resolved res d) # rest) w1
         in r = Inr job \<and> jobs w1 (jid job) = Some job \<and> entryData e = mkQueueData job
          \<and> (\<exists>ex. executions w2 = executions w @ [ex] \<and> jobId ex = jid job
                 \<and> exStatus ex = ExCompleted \<and> attempt ex = 1 \<and> \<not> isRetry ex
                 \<and> completedAt ex = Some (now + d) \<and> duration ex = Some d \<and> result ex = Some res)
          \<and> (\<exists>job'. jobs w2 (jid job) = Some job' \<and> status job' = Completed
                 \<and> successfulExecutions job' = 1 \<and> totalExecutions job' = 1
                 \<and> failedExecutions job' = 0 \<and> lastExecutedAt job' = Some (now + d))
          \<and> (\<forall>v bj row. jobs v (q_jobId (bullData bj)) = Some row \<and> scheduleType row \<noteq> Recurring \<longrightarrow>
                 map_option status (jobs (snd (processJob cl cfg wid now bj (Resolved res d) v))
                                      (q_jobId (bullData bj))) = Some Completed)"
proof -
  let ?job = "newJob inp uid (nextJobId w) (Some t0)"
  let ?w1 = "snd (scheduleJob cl cfg t0 inp uid w)"
  let ?e = "last (jobQueue ?w1)"
  have jid: "jid ?job = nextJobId w" by (simp add: newJob_def)
  have nonrec: "scheduleType ?job \<noteq> Recurring" using assms by (simp add: newJob_def)
  have zero: "totalExecutions ?job = 0" "successfulExecutions ?job = 0" "failedExecutions ?job = 0"
    by (simp_all add: newJob_def)
  have r: "fst (scheduleJob cl cfg t0 inp uid w) = Inr ?job"
    by (simp add: scheduleJob_immediate [OF assms])
  have row: "jobs ?w1 (nextJobId w) = Some ?job"
    by (simp add: scheduleJob_immediate [OF assms])
  have ex1: "executions ?w1 = executions w"
    by (simp add: scheduleJob_immediate [OF assms])
  have e: "entryData ?e = mkQueueData ?job"
    by (simp add: scheduleJob_immediate [OF assms] addJob_def)
  have key: "q_jobId (entryData ?e) = nextJobId w"
    by (simp add: e mkQueueData_def jid)
  have row': "jobs ?w1 (q_jobId (entryData ?e)) = Some ?job" using row key by simp
  let ?bj = "\<lparr> bullData = entryData ?e, attemptsMade = 0 \<rparr>"
  let ?w2 = "runAttempts cl cfg wid ?e 0 ((now, Resolved res d) # rest) ?w1"
  have w2: "?w2 = snd (processJob cl cfg wid now ?bj (Resolved res d) ?w1)"
    by (rule runAttempts_success [OF row' nonrec])
  have row'': "jobs ?w1 (q_jobId (bullData ?bj)) = Some ?job" using row' by simp
  note pj = processJob_success_nonrecurring [OF row'' nonrec, of cl cfg wid now res d]
  have exs: "\<exists>ex. executions ?w2 = executions w @ [ex] \<and> jobId ex = jid ?job
                 \<and> exStatus ex = ExCompleted \<and> attempt ex = 1 \<and> \<not> isRetry ex
                 \<and> completedAt ex = Some (now + d) \<and> duration ex = Some d \<and> result ex = Some res"
    unfolding w2 using pj by (simp add: ex1 completedRow_def createExecution_def Let_def key jid)
  have jb: "\<exists>job'. jobs ?w2 (jid ?job) = Some job' \<and> status job' = Completed
                 \<and> successfulExecutions job' = 1 \<and> totalExecutions job' = 1
                 \<and> failedExecutions job' = 0 \<and> lastExecutedAt job' = Some (now + d)"
    unfolding w2 using pj by (simp add: key jid zero)
  have gen: "\<forall>v bj row. jobs v (q_jobId (bullData bj)) = Some row \<and> scheduleType row \<noteq> Recurring \<longrightarrow>
                 map_option status (jobs (snd (processJob cl cfg wid now bj (Resolved res d) v))
                                      (q_jobId (bullData bj))) = Some Completed"
    using processJob_success_nonrecurring by simp
  show ?thesis
    unfolding Let_def case_prod_beta
    using r row e exs jb gen by (simp only: jid)
qed


theorem immediate_job_success_witness:
  "in_scheduleType httpInput = Immediate
   \<and> (let (r, w1) = scheduleJob everyFiveMinutes default_config 1000 httpInput 7 emptyWorld;
            job = newJob httpInput 7 (nextJobId emptyWorld) (Some 1000);
            e = last (jobQueue w1);
            w2 = runAttempts everyFiveMinutes default_config ''w1'' e 0
                   ((1200, Resolved ''{statusCode: 200}'' 35) # [(9000, Rejected ''never'' 1)]) w1
        in r = Inr job
         \<and> (\<exists>ex. executions w2 = executions emptyWorld @ [ex] \<and> exStatus ex = ExCompleted \<and> attempt ex = 1)
         \<and> (\<exists>job'. jobs w2 (jid job) = Some job' \<and> status job' = Completed
                 \<and> successfulExecutions job' = 1 \<and> totalExecutions job' = 1))
   \<and> jobs sampleWorld (q_jobId (bullData (sampleBull sampleJob 0))) = Some sampleJob
   \<and> scheduleType sampleJob \<noteq> Recurring
   \<and> map_option status
        (jobs (snd (processJob everyFiveMinutes default_config ''w1'' 1200 (sampleBull sampleJob 0)
                      (Resolved ''{statusCode: 200}'' 35) sampleWorld))
           (q_jobId (bullData (sampleBull sampleJob 0)))) = Some Completed"
proof -
  have imm: "in_scheduleType httpInput = Immediate" by (simp add: httpInput_def)
  have row: "jobs sampleWorld (q_jobId (bullData (sampleBull sampleJob 0))) = Some sampleJob"
    by (simp add: sampleBull_key sampleWorld_def emptyWorld_def)
  have nonrec: "scheduleType sampleJob \<noteq> Recurring"
    by (simp add: sampleJob_def newJob_def httpInput_def)
  note main = immediate_job_success [OF imm, of everyFiveMinutes default_config 1000 7 emptyWorld
        "''w1''" 1200 "''{statusCode: 200}''" 35 "[(9000, Rejected ''never'' 1)]",
        unfolded Let_def case_prod_beta]
  from main have gen: "\<forall>v bj row. jobs v (q_jobId (bullData bj)) = Some row \<and> scheduleType row \<noteq> Recurring \<longrightarrow>
                 map_option status (jobs (snd (processJob everyFiveMinutes default_config ''w1'' 1200 bj
                                      (Resolved ''{statusCode: 200}'' 35) v))
                                      (q_jobId (bullData bj))) = Some Completed"
    by blast
  from gen row nonrec have inst: "map_option status
        (jobs (snd (processJob everyFiveMinutes default_config ''w1'' 1200 (sampleBull sampleJob 0)
                      (Resolved ''{statusCode: 200}'' 35) sampleWorld))
           (q_jobId (bullData (sampleBull sampleJob 0)))) = Some Completed"
    by blast
  show ?thesis
    using main imm row nonrec inst
    unfolding Let_def case_prod_beta
    by blast
qed

section \<open>What the code does where it departs from its own model\<close>

lemma createExecution_fields:
  "eid (fst (createExecution wid now bj w)) = length (executions w)"
  "jobId (fst (createExecution wid now bj w)) = q_jobId (bullData bj)"
  "attempt (fst (createExecution wid now bj w)) = int (attemptsMade bj) + 1"
  "isRetry (fst (createExecution wid now bj w)) = (0 < attemptsMade bj)"
  "previousExecutionId (fst (createExecution wid now bj w)) = None"
  "exStatus (fst (createExecution wid now bj w)) = ExRunning"
  by (simp_all add: createExecution_def Let_def)

lemma processJob_rows:
  "executions (snd (processJob cl cfg wid now bj oc w)) =
     executions w @
       [case oc of
          Rejected msg d \<Rightarrow> failedRow (fst (createExecution wid now bj w)) (now + d) msg d
        | Resolved res d \<Rightarrow> completedRow (fst (createExecution wid now bj w)) (now + d) res d]
   \<or> executions (snd (processJob cl cfg wid now bj oc w)) =
     executions w @
       [case oc of
          Rejected msg d \<Rightarrow> failedRow (fst (createExecution wid now bj w)) (now + d) msg d
        | Resolved res d \<Rightarrow>
            failedRow (completedRow (fst (createExecution wid now bj w)) (now + d) res d)
              (now + d) ''Invalid cron expression'' d]"
proof (cases oc)
  case (Rejected msg d)
  have "executions (snd (processJob cl cfg wid now bj (Rejected msg d) w)) =
     executions w @ [failedRow (fst (createExecution wid now bj w)) (now + d) msg d]"
    by (simp add: processJob_Rejected executions_onFailure startAttempt_row)
  then show ?thesis by (simp add: Rejected)
next
  case (Resolved res d)
  from executions_onSuccess [of cl cfg "now + d" bj "fst (startAttempt wid now bj w)" res d
        "snd (startAttempt wid now bj w)"]
  have "executions (snd (processJob cl cfg wid now bj (Resolved res d) w)) =
          executions w @ [completedRow (fst (createExecution wid now bj w)) (now + d) res d]
      \<or> executions (snd (processJob cl cfg wid now bj (Resolved res d) w)) =
          executions w @ [failedRow (completedRow (fst (createExecution wid now bj w)) (now + d) res d)
                            (now + d) ''Invalid cron expression'' d]"
    by (simp add: processJob_Resolved startAttempt_row)
  then show ?thesis by (simp add: Resolved)
qed


lemma processJob_new_row:
  "\<exists>ex. executions (snd (processJob cl cfg wid now bj oc w)) = executions w @ [ex]
       \<and> eid ex = length (executions w)
       \<and> jobId ex = q_jobId (bullData bj)
       \<and> attempt ex = int (attemptsMade bj) + 1
       \<and> isRetry ex = (0 < attemptsMade bj)
       \<and> previousExecutionId ex = None
       \<and> (exStatus ex = ExCompleted \<or> exStatus ex = ExFailed)"
proof -
  let ?ex = "fst (createExecution wid now bj w)"
  have f: "\<And>t msg d. eid (failedRow ?ex t msg d) = length (executions w)
       \<and> jobId (failedRow ?ex t msg d) = q_jobId (bullData bj)
       \<and> attempt (failedRow ?ex t msg d) = int (attemptsMade bj) + 1
       \<and> isRetry (failedRow ?ex t msg d) = (0 < attemptsMade bj)
       \<and> previousExecutionId (failedRow ?ex t msg d) = None
       \<and> exStatus (failedRow ?ex t msg d) = ExFailed"
    by (simp add: failedRow_def createExecution_fields)
  have c: "\<And>t res d. eid (completedRow ?ex t res d) = length (executions w)
       \<and> jobId (completedRow ?ex t res d) = q_jobId (bullData bj)
       \<and> attempt (completedRow ?ex t res d) = int (attemptsMade bj) + 1
       \<and> isRetry (completedRow ?ex t res d) = (0 < attemptsMade bj)
       \<and> previousExecutionId (completedRow ?ex t res d) = None
       \<and> exStatus (completedRow ?ex t res d) = ExCompleted"
    by (simp add: completedRow_def createExecution_fields)
  have fc: "\<And>t res d t' msg d'. eid (failedRow (completedRow ?ex t res d) t' msg d') = length (executions w)
       \<and> jobId (failedRow (completedRow ?ex t res d) t' msg d') = q_jobId (bullData bj)
       \<and> attempt (failedRow (completedRow ?ex t res d) t' msg d') = int (attemptsMade bj) + 1
       \<and> isRetry (failedRow (completedRow ?ex t res d) t' msg d') = (0 < attemptsMade bj)
       \<and> previousExecutionId (failedRow (completedRow ?ex t res d) t' msg d') = None
       \<and> exStatus (failedRow (completedRow ?ex t res d) t' msg d') = ExFailed"
    by (simp add: failedRow_def completedRow_def createExecution_fields)
  show ?thesis
  proof (cases oc)
    case (Rejected msg d)
    with processJob_rows [of cl cfg wid now bj oc w]
    have "executions (snd (processJob cl cfg wid now bj oc w)) =
            executions w @ [failedRow ?ex (now + d) msg d]"
      by simp
    with f [of "now + d" msg d] show ?thesis
      by (intro exI [of _ "failedRow ?ex (now + d) msg d"]) simp
  next
    case (Resolved res d)
    with processJob_rows [of cl cfg wid now bj oc w]
    have "executions (snd (processJob cl cfg wid now bj oc w)) =
            executions w @ [completedRow ?ex (now + d) res d]
        \<or> executions (snd (processJob cl cfg wid now bj oc w)) =
            executions w @ [failedRow (completedRow ?ex (now + d) res d) (now + d) ''Invalid cron expression'' d]"
      by simp
    then show ?thesis
    proof
      assume "executions (snd (processJob cl cfg wid now bj oc w)) =
            executions w @ [completedRow ?ex (now + d) res d]"
      with c [of "now + d" res d] show ?thesis
        by (intro exI [of _ "completedRow ?ex (now + d) res d"]) simp
    next
      assume "executions (snd (processJob cl cfg wid now bj oc w)) =
            executions w @ [failedRow (completedRow ?ex (now + d) res d) (now + d) ''Invalid cron expression'' d]"
      with fc [of "now + d" res d "now + d" "''Invalid cron expression''" d] show ?thesis
        by (intro exI [of _ "failedRow (completedRow ?ex (now + d) res d) (now + d) ''Invalid cron expression'' d"]) simp
    qed
  qed
qed

text \<open>
  C5 at its failing input. Whatever the attempt, the Execution row the worker creates has
  \<open>isRetry\<close> set exactly for attempts after the first, and no \<open>previousExecutionId\<close>: the row
  of a retried attempt does not point to its predecessor.
\<close>

theorem retry_execution_not_linked:
  "\<exists>ex. executions (snd (processJob cl cfg wid now bj oc w)) = executions w @ [ex]
       \<and> attempt ex = int (attemptsMade bj) + 1
       \<and> isRetry ex = (0 < attemptsMade bj)
       \<and> previousExecutionId ex = None"
proof -
  from processJob_new_row [of cl cfg wid now bj oc w]
  obtain ex where "executions (snd (processJob cl cfg wid now bj oc w)) = executions w @ [ex]"
      "attempt ex = int (attemptsMade bj) + 1" "isRetry ex = (0 < attemptsMade bj)"
      "previousExecutionId ex = None"
    by (elim exE conjE)
  then show ?thesis by (intro exI [of _ ex]) simp
qed

text \<open>
  C8 at its failing input. A job with \<open>timeout = 1000\<close> whose executor resolves after 5000 ms
  is recorded completed with a duration of 5000; the HTTP adapter's own timeout is an ordinary
  rejection, recorded failed; and no attempt is ever recorded with status \<open>timeout\<close>.
\<close>

theorem slow_executor_not_timed_out:
  "map (\<lambda>ex. (exStatus ex, duration ex))
       (executions (snd (processJob everyFiveMinutes default_config ''w1'' 1000
                           (sampleBull shortTimeoutJob 0) (Resolved ''late'' 5000)
                           (worldWith shortTimeoutJob))))
     = [(ExCompleted, Some 5000)]
   \<and> q_timeout (bullData (sampleBull shortTimeoutJob 0)) = 1000
   \<and> map exStatus
       (executions (snd (processJob everyFiveMinutes default_config ''w1'' 1000
                           (sampleBull shortTimeoutJob 0) (executeHttpJob HttpTimeout 30000)
                           (worldWith shortTimeoutJob))))
     = [ExFailed]
   \<and> (\<exists>ex. executions (snd (processJob cl cfg wid now bj oc w)) = executions w @ [ex]
         \<and> exStatus ex \<noteq> ExTimeout)"
proof -
  have key: "q_jobId (bullData (sampleBull shortTimeoutJob 0)) = 0"
    by (simp add: sampleBull_def mkQueueData_def shortTimeoutJob_def sampleJob_def newJob_def)
  have row: "jobs (worldWith shortTimeoutJob) (q_jobId (bullData (sampleBull shortTimeoutJob 0)))
               = Some shortTimeoutJob"
    by (simp add: key worldWith_def emptyWorld_def)
  have nonrec: "scheduleType shortTimeoutJob \<noteq> Recurring"
    by (simp add: shortTimeoutJob_def sampleJob_def newJob_def httpInput_def)
  have ex0: "executions (worldWith shortTimeoutJob) = []"
    by (simp add: worldWith_def emptyWorld_def)
  have a: "map (\<lambda>ex. (exStatus ex, duration ex))
       (executions (snd (processJob everyFiveMinutes default_config ''w1'' 1000
                           (sampleBull shortTimeoutJob 0) (Resolved ''late'' 5000)
                           (worldWith shortTimeoutJob))))
     = [(ExCompleted, Some 5000)]"
    using processJob_success_nonrecurring [OF row nonrec, of everyFiveMinutes default_config
        "''w1''" 1000 "''late''" 5000]
    by (simp add: ex0 completedRow_def)
  have b: "q_timeout (bullData (sampleBull shortTimeoutJob 0)) = 1000"
    by (simp add: sampleBull_def mkQueueData_def shortTimeoutJob_def)
  have c: "map exStatus
       (executions (snd (processJob everyFiveMinutes default_config ''w1'' 1000
                           (sampleBull shortTimeoutJob 0) (executeHttpJob HttpTimeout 30000)
                           (worldWith shortTimeoutJob))))
     = [ExFailed]"
    by (simp add: executeHttpJob_def processJob_Rejected executions_onFailure ex0 failedRow_def)
  have d: "\<exists>ex. executions (snd (processJob cl cfg wid now bj oc w)) = executions w @ [ex]
         \<and> exStatus ex \<noteq> ExTimeout"
  proof -
    from processJob_new_row [of cl cfg wid now bj oc w]
    obtain ex where "executions (snd (processJob cl cfg wid now bj oc w)) = executions w @ [ex]"
        "exStatus ex = ExCompleted \<or> exStatus ex = ExFailed"
      by (elim exE conjE)
    then show ?thesis by (intro exI [of _ ex]) auto
  qed
  show ?thesis using a b c d by (intro conjI)
qed

lemma last_jobQueue_addJob:
  "last (jobQueue (addJob cfg qd p dl w)) =
     \<lparr> entryData = qd,
       entryOpts = \<lparr> attempts = Some (maxRetryAttempts cfg),
                     backoff = Some (Exponential, retryDelayMs cfg),
                     optPriority = p, optDelay = dl, optJobId = q_jobId qd, repeat = None \<rparr> \<rparr>"
  by (simp add: addJob_def)

text \<open>
  C6 at its failing input. A job created with \<open>retryDelay = 1000\<close> and a fixed backoff carries
  both in its envelope, but the entry is queued with the queue's own options: exponential
  backoff on the configured delay. Its retries wait 5000 and 10000 ms, not 1000.
\<close>

theorem enqueued_backoff_ignores_job:
  "(let w1 = snd (scheduleJob everyFiveMinutes default_config 1000 fixedDelayInput 7 emptyWorld);
        e = last (jobQueue w1)
    in q_retryDelay (entryData e) = Some 1000
     \<and> q_retryBackoff (entryData e) = Some Fixed
     \<and> backoff (entryOpts e) = Some (Exponential, 5000)
     \<and> backoffDelay (entryOpts e) 1 = 5000
     \<and> backoffDelay (entryOpts e) 2 = 10000)
   \<and> backoff (entryOpts (last (jobQueue (addJob cfg qd p dl w)))) = Some (Exponential, retryDelayMs cfg)"
proof -
  have imm: "in_scheduleType fixedDelayInput = Immediate"
    by (simp add: fixedDelayInput_def httpInput_def)
  let ?job = "newJob fixedDelayInput 7 (nextJobId emptyWorld) (Some 1000)"
  have e: "last (jobQueue (snd (scheduleJob everyFiveMinutes default_config 1000 fixedDelayInput 7 emptyWorld)))
      = \<lparr> entryData = mkQueueData ?job,
          entryOpts = \<lparr> attempts = Some (maxRetryAttempts default_config),
                        backoff = Some (Exponential, retryDelayMs default_config),
                        optPriority = Some (priority ?job), optDelay = None,
                        optJobId = q_jobId (mkQueueData ?job), repeat = None \<rparr> \<rparr>"
    by (simp add: scheduleJob_immediate [OF imm] last_jobQueue_addJob)
  have cfg5: "retryDelayMs default_config = 5000"
    by (simp add: default_config_def load_config_def orDefault_def)
  have data: "q_retryDelay (mkQueueData ?job) = Some 1000" "q_retryBackoff (mkQueueData ?job) = Some Fixed"
    by (simp_all add: mkQueueData_def newJob_def fixedDelayInput_def nullish_def)
  have two: "(2::nat) - 1 = 1" by simp
  show ?thesis
    unfolding Let_def e
    by (simp add: cfg5 data backoffDelay_def last_jobQueue_addJob two)
qed

text \<open>
  C9 at its failing input. Creating a scheduled job ten seconds in the past is rejected by
  the queue module after the row has been written: the error comes back, no queue entry
  exists, and the job row is in the store, active. A \<open>scheduledAt\<close> equal to the clock is
  accepted.
\<close>

theorem past_schedule_persists_row:
  "fst (scheduleJob everyFiveMinutes default_config 100000 pastInput 7 emptyWorld)
     = Inl ExecuteTimeNotInFuture
   \<and> jobQueue (snd (scheduleJob everyFiveMinutes default_config 100000 pastInput 7 emptyWorld)) = []
   \<and> jobs (snd (scheduleJob everyFiveMinutes default_config 100000 pastInput 7 emptyWorld)) 0
       = Some (newJob pastInput 7 0 (Some 90000))
   \<and> status (newJob pastInput 7 0 (Some 90000)) = Active
   \<and> jobs emptyWorld 0 = None
   \<and> fst (scheduleJob everyFiveMinutes default_config 90000 pastInput 7 emptyWorld)
       = Inr (newJob pastInput 7 0 (Some 90000))"
proof -
  have sch: "in_scheduleType pastInput = Scheduled" "in_scheduledAt pastInput = Some 90000"
    by (simp_all add: pastInput_def)
  have st: "scheduleType (newJob pastInput 7 0 (Some 90000)) = Scheduled"
      "scheduledAt (newJob pastInput 7 0 (Some 90000)) = Some 90000"
      "status (newJob pastInput 7 0 (Some 90000)) = Active"
    by (simp_all add: newJob_def pastInput_def)
  have e0: "nextJobId emptyWorld = 0" "jobs emptyWorld = Map.empty" "jobQueue emptyWorld = []"
    by (simp_all add: emptyWorld_def)
  have unf: "\<And>now. scheduleJob everyFiveMinutes default_config now pastInput 7 emptyWorld
      = createAndEnqueue default_config now pastInput 7 (Some 90000) emptyWorld"
    by (simp add: scheduleJob_def sch)
  have late: "createAndEnqueue default_config 100000 pastInput 7 (Some 90000) emptyWorld
      = (Inl ExecuteTimeNotInFuture,
         emptyWorld\<lparr> jobs := (jobs emptyWorld)(0 \<mapsto> newJob pastInput 7 0 (Some 90000)),
                      nextJobId := Suc 0 \<rparr>)"
    by (simp add: createAndEnqueue_def Let_def e0 enqueueJob_def st addDelayedJob_def)
  have intime: "fst (createAndEnqueue default_config 90000 pastInput 7 (Some 90000) emptyWorld)
      = Inr (newJob pastInput 7 0 (Some 90000))"
    by (simp add: createAndEnqueue_def Let_def e0 enqueueJob_def st addDelayedJob_def)
  show ?thesis
    by (simp add: unf late intime st e0)
qed

section \<open>Chains of failing attempts\<close>

lemma failed_step:
  assumes "jobs w (q_jobId (bullData bj)) = Some job"
  shows "fst (processJob cl cfg wid now bj (Rejected msg d) w) = Inl msg"
    and "jobs (snd (processJob cl cfg wid now bj (Rejected msg d) w)) (q_jobId (bullData bj)) =
           Some (job\<lparr> lastExecutedAt := Some (now + d),
                       totalExecutions := totalExecutions job + 1,
                       failedExecutions := failedExecutions job + 1,
                       status := (if isLastAttempt cfg bj then Failed else status job) \<rparr>)"
    and "outcomes (snd (processJob cl cfg wid now bj (Rejected msg d) w)) =
           outcomes w @ [(q_jobId (bullData bj), int (attemptsMade bj) + 1, ExFailed)]"
    and "notifications (snd (processJob cl cfg wid now bj (Rejected msg d) w)) =
           notifications w @
             [if isLastAttempt cfg bj
              then MaxRetriesExceededEvent (userId job) (jid job) (jname job)
                     (effectiveMaxRetries cfg (bullData bj)) msg
              else JobRetryEvent (userId job) (jid job) (jname job) (int (attemptsMade bj) + 1)
                     (effectiveMaxRetries cfg (bullData bj)) msg]"
proof -
  have row: "jobs (snd (startAttempt wid now bj w)) (q_jobId (bullData bj)) = Some job"
    using assms by simp
  show "fst (processJob cl cfg wid now bj (Rejected msg d) w) = Inl msg"
    by (simp add: processJob_Rejected)
  show "jobs (snd (processJob cl cfg wid now bj (Rejected msg d) w)) (q_jobId (bullData bj)) =
           Some (job\<lparr> lastExecutedAt := Some (now + d),
                       totalExecutions := totalExecutions job + 1,
                       failedExecutions := failedExecutions job + 1,
                       status := (if isLastAttempt cfg bj then Failed else status job) \<rparr>)"
    using assms by (simp add: processJob_Rejected jobs_onFailure_Some [OF row])
  show "outcomes (snd (processJob cl cfg wid now bj (Rejected msg d) w)) =
           outcomes w @ [(q_jobId (bullData bj), int (attemptsMade bj) + 1, ExFailed)]"
    by (simp add: outcomes_def processJob_Rejected executions_onFailure startAttempt_row failedRow_def
          createExecution_fields)
  show "notifications (snd (processJob cl cfg wid now bj (Rejected msg d) w)) =
           notifications w @
             [if isLastAttempt cfg bj
              then MaxRetriesExceededEvent (userId job) (jid job) (jname job)
                     (effectiveMaxRetries cfg (bullData bj)) msg
              else JobRetryEvent (userId job) (jid job) (jname job) (int (attemptsMade bj) + 1)
                     (effectiveMaxRetries cfg (bullData bj)) msg]"
    using assms by (simp add: processJob_Rejected notifications_onFailure_Some [OF row])
qed

lemma runAttempts_Rejected:
  "runAttempts cl cfg wid e made ((now, Rejected msg d) # rest) w =
     (if retryAllowed (entryOpts e) (Suc made)
      then runAttempts cl cfg wid e (Suc made) rest
             (snd (processJob cl cfg wid now \<lparr> bullData = entryData e, attemptsMade = made \<rparr> (Rejected msg d) w))
      else snd (processJob cl cfg wid now \<lparr> bullData = entryData e, attemptsMade = made \<rparr> (Rejected msg d) w))"
proof -
  have "fst (processJob cl cfg wid now \<lparr> bullData = entryData e, attemptsMade = made \<rparr> (Rejected msg d) w) = Inl msg"
    by (simp add: processJob_Rejected)
  then show ?thesis
    by (cases "processJob cl cfg wid now \<lparr> bullData = entryData e, attemptsMade = made \<rparr> (Rejected msg d) w")
       simp
qed


lemma three_failures:
  assumes row: "jobs w (q_jobId (entryData e)) = Some job"
      and att: "attempts (entryOpts e) = Some 3"
  shows "let k = q_jobId (entryData e);
             mx = effectiveMaxRetries cfg (entryData e);
             w' = runAttempts cl cfg wid e 0
                    ((n1, Rejected m1 d1) # (n2, Rejected m2 d2) # (n3, Rejected m3 d3) # rest) w;
             ev = (\<lambda>i m. if i \<ge> mx
                           then MaxRetriesExceededEvent (userId job) (jid job) (jname job) mx m
                           else JobRetryEvent (userId job) (jid job) (jname job) i mx m)
         in outcomes w' = outcomes w @ [(k, 1, ExFailed), (k, 2, ExFailed), (k, 3, ExFailed)]
          \<and> notifications w' = notifications w @ [ev 1 m1, ev 2 m2, ev 3 m3]
          \<and> map_option status (jobs w' k) = Some (if 3 \<ge> mx then Failed else status job)
          \<and> map_option counters (jobs w' k) =
              Some (totalExecutions job + 3, successfulExecutions job, failedExecutions job + 3)"
proof -
  define k where "k = q_jobId (entryData e)"
  define mx where "mx = effectiveMaxRetries cfg (entryData e)"
  define b0 where "b0 = \<lparr> bullData = entryData e, attemptsMade = 0 \<rparr>"
  define b1 where "b1 = \<lparr> bullData = entryData e, attemptsMade = Suc 0 \<rparr>"
  define b2 where "b2 = \<lparr> bullData = entryData e, attemptsMade = Suc (Suc 0) \<rparr>"
  define w1 where "w1 = snd (processJob cl cfg wid n1 b0 (Rejected m1 d1) w)"
  define w2 where "w2 = snd (processJob cl cfg wid n2 b1 (Rejected m2 d2) w1)"
  define w3 where "w3 = snd (processJob cl cfg wid n3 b2 (Rejected m3 d3) w2)"
  define j1 where "j1 = job\<lparr> lastExecutedAt := Some (n1 + d1),
                       totalExecutions := totalExecutions job + 1,
                       failedExecutions := failedExecutions job + 1,
                       status := (if isLastAttempt cfg b0 then Failed else status job) \<rparr>"
  define j2 where "j2 = j1\<lparr> lastExecutedAt := Some (n2 + d2),
                       totalExecutions := totalExecutions j1 + 1,
                       failedExecutions := failedExecutions j1 + 1,
                       status := (if isLastAttempt cfg b1 then Failed else status j1) \<rparr>"
  define j3 where "j3 = j2\<lparr> lastExecutedAt := Some (n3 + d3),
                       totalExecutions := totalExecutions j2 + 1,
                       failedExecutions := failedExecutions j2 + 1,
                       status := (if isLastAttempt cfg b2 then Failed else status j2) \<rparr>"
  have keys: "q_jobId (bullData b0) = k" "q_jobId (bullData b1) = k" "q_jobId (bullData b2) = k"
    by (simp_all add: b0_def b1_def b2_def k_def)
  have lasts: "isLastAttempt cfg b0 = (1 \<ge> mx)" "isLastAttempt cfg b1 = (2 \<ge> mx)"
      "isLastAttempt cfg b2 = (3 \<ge> mx)"
    by (simp_all add: isLastAttempt_def b0_def b1_def b2_def mx_def)
  have effs: "effectiveMaxRetries cfg (bullData b0) = mx" "effectiveMaxRetries cfg (bullData b1) = mx"
      "effectiveMaxRetries cfg (bullData b2) = mx"
    by (simp_all add: b0_def b1_def b2_def mx_def)
  have mades: "attemptsMade b0 = 0" "attemptsMade b1 = Suc 0" "attemptsMade b2 = Suc (Suc 0)"
    by (simp_all add: b0_def b1_def b2_def)
  have r0: "jobs w (q_jobId (bullData b0)) = Some job" using row by (simp add: keys k_def)
  note s1 = failed_step [OF r0, of cl cfg wid n1 m1 d1, folded w1_def j1_def]
  have r1: "jobs w1 (q_jobId (bullData b1)) = Some j1" using s1(2) by (simp add: keys)
  note s2 = failed_step [OF r1, of cl cfg wid n2 m2 d2, folded w2_def j2_def]
  have r2: "jobs w2 (q_jobId (bullData b2)) = Some j2" using s2(2) by (simp add: keys)
  note s3 = failed_step [OF r2, of cl cfg wid n3 m3 d3, folded w3_def j3_def]
  have chain: "runAttempts cl cfg wid e 0
                    ((n1, Rejected m1 d1) # (n2, Rejected m2 d2) # (n3, Rejected m3 d3) # rest) w = w3"
    by (simp add: runAttempts_Rejected retryAllowed_def att w3_def w2_def w1_def b0_def b1_def b2_def
          del: runAttempts.simps)
  have ex: "outcomes w3 = outcomes w @ [(k, 1, ExFailed), (k, 2, ExFailed), (k, 3, ExFailed)]"
    by (simp add: s1(3) s2(3) s3(3) mades keys)
  have ids: "userId j1 = userId job" "jid j1 = jid job" "jname j1 = jname job"
      "userId j2 = userId job" "jid j2 = jid job" "jname j2 = jname job"
    by (simp_all add: j1_def j2_def)
  have nt: "notifications w3 = notifications w @
      [if 1 \<ge> mx then MaxRetriesExceededEvent (userId job) (jid job) (jname job) mx m1
       else JobRetryEvent (userId job) (jid job) (jname job) 1 mx m1,
       if 2 \<ge> mx then MaxRetriesExceededEvent (userId job) (jid job) (jname job) mx m2
       else JobRetryEvent (userId job) (jid job) (jname job) 2 mx m2,
       if 3 \<ge> mx then MaxRetriesExceededEvent (userId job) (jid job) (jname job) mx m3
       else JobRetryEvent (userId job) (jid job) (jname job) 3 mx m3]"
    by (simp add: s1(4) s2(4) s3(4) lasts effs mades ids)
  have st: "status j3 = (if 3 \<ge> mx then Failed else status job)"
    by (simp add: j3_def j2_def j1_def lasts)
  have cn: "counters j3 = (totalExecutions job + 3, successfulExecutions job, failedExecutions job + 3)"
    by (simp add: counters_def j3_def j2_def j1_def)
  have j3: "jobs w3 k = Some j3" using s3(2) by (simp add: keys)
  show ?thesis
    unfolding Let_def chain k_def [symmetric] mx_def [symmetric]
    using ex nt st cn j3 by simp
qed


lemma one_failure:
  assumes row: "jobs w (q_jobId (entryData e)) = Some job"
      and att: "attempts (entryOpts e) = None"
  shows "let k = q_jobId (entryData e);
             mx = effectiveMaxRetries cfg (entryData e);
             w' = runAttempts cl cfg wid e 0 ((n1, Rejected m1 d1) # rest) w
         in outcomes w' = outcomes w @ [(k, 1, ExFailed)]
          \<and> notifications w' = notifications w @
               [if 1 \<ge> mx then MaxRetriesExceededEvent (userId job) (jid job) (jname job) mx m1
                else JobRetryEvent (userId job) (jid job) (jname job) 1 mx m1]
          \<and> jobs w' k = Some (job\<lparr> lastExecutedAt := Some (n1 + d1),
                                     totalExecutions := totalExecutions job + 1,
                                     failedExecutions := failedExecutions job + 1,
                                     status := (if 1 \<ge> mx then Failed else status job) \<rparr>)"
proof -
  define b0 where "b0 = \<lparr> bullData = entryData e, attemptsMade = 0 \<rparr>"
  have key: "q_jobId (bullData b0) = q_jobId (entryData e)" by (simp add: b0_def)
  have lst: "isLastAttempt cfg b0 = (1 \<ge> effectiveMaxRetries cfg (entryData e))"
    by (simp add: isLastAttempt_def b0_def)
  have eff: "effectiveMaxRetries cfg (bullData b0) = effectiveMaxRetries cfg (entryData e)"
    by (simp add: b0_def)
  have made: "attemptsMade b0 = 0" by (simp add: b0_def)
  have r0: "jobs w (q_jobId (bullData b0)) = Some job" using row by (simp add: key)
  note s1 = failed_step [OF r0, of cl cfg wid n1 m1 d1]
  have chain: "runAttempts cl cfg wid e 0 ((n1, Rejected m1 d1) # rest) w =
                 snd (processJob cl cfg wid n1 b0 (Rejected m1 d1) w)"
    by (simp add: runAttempts_Rejected retryAllowed_def att b0_def del: runAttempts.simps)
  show ?thesis
    unfolding Let_def chain
    using s1(2) s1(3) s1(4) by (simp add: key lst eff made)
qed



lemma scheduleJob_scheduled:
  assumes "in_scheduleType inp = Scheduled"
  shows "scheduleJob cl cfg t0 inp uid w =
     (if (case in_scheduledAt inp of Some t \<Rightarrow> t | None \<Rightarrow> 0) - t0 < 0
      then (Inl ExecuteTimeNotInFuture,
            w\<lparr> jobs := (jobs w)(nextJobId w \<mapsto> newJob inp uid (nextJobId w) (in_scheduledAt inp)),
               nextJobId := Suc (nextJobId w) \<rparr>)
      else (Inr (newJob inp uid (nextJobId w) (in_scheduledAt inp)),
            appendLog (nextJobId w) None LvInfo LogCreated
              (addJob cfg (mkQueueData (newJob inp uid (nextJobId w) (in_scheduledAt inp))) None
                 (Some ((case in_scheduledAt inp of Some t \<Rightarrow> t | None \<Rightarrow> 0) - t0))
                 (w\<lparr> jobs := (jobs w)(nextJobId w \<mapsto> newJob inp uid (nextJobId w) (in_scheduledAt inp)),
                     nextJobId := Suc (nextJobId w) \<rparr>))))"
  using assms
  by (simp add: scheduleJob_def createAndEnqueue_def enqueueJob_def addDelayedJob_def Let_def newJob_def)

lemma scheduleJob_queued:
  assumes "in_scheduleType inp \<noteq> Recurring"
      and "fst (scheduleJob cl cfg t0 inp uid w) = Inr job"
  shows "jobs (snd (scheduleJob cl cfg t0 inp uid w)) (nextJobId w) = Some job"
    and "job = newJob inp uid (nextJobId w)
                 (if in_scheduleType inp = Immediate then Some t0 else in_scheduledAt inp)"
    and "entryData (last (jobQueue (snd (scheduleJob cl cfg t0 inp uid w)))) = mkQueueData job"
    and "attempts (entryOpts (last (jobQueue (snd (scheduleJob cl cfg t0 inp uid w))))) =
           Some (maxRetryAttempts cfg)"
    and "executions (snd (scheduleJob cl cfg t0 inp uid w)) = executions w"
    and "notifications (snd (scheduleJob cl cfg t0 inp uid w)) = notifications w"
proof -
  consider (imm) "in_scheduleType inp = Immediate" | (sch) "in_scheduleType inp = Scheduled"
    using assms(1) by (cases "in_scheduleType inp") simp_all
  then have "jobs (snd (scheduleJob cl cfg t0 inp uid w)) (nextJobId w) = Some job
      \<and> job = newJob inp uid (nextJobId w)
                 (if in_scheduleType inp = Immediate then Some t0 else in_scheduledAt inp)
      \<and> entryData (last (jobQueue (snd (scheduleJob cl cfg t0 inp uid w)))) = mkQueueData job
      \<and> attempts (entryOpts (last (jobQueue (snd (scheduleJob cl cfg t0 inp uid w))))) =
           Some (maxRetryAttempts cfg)
      \<and> executions (snd (scheduleJob cl cfg t0 inp uid w)) = executions w
      \<and> notifications (snd (scheduleJob cl cfg t0 inp uid w)) = notifications w"
  proof cases
    case imm
    then show ?thesis using assms(2)
      by (simp add: scheduleJob_immediate addJob_def appendLog_def)
  next
    case sch
    show ?thesis
    proof (cases "(case in_scheduledAt inp of Some t \<Rightarrow> t | None \<Rightarrow> 0) - t0 < 0")
      case True
      then show ?thesis using assms(2) by (simp add: scheduleJob_scheduled [OF sch])
    next
      case False
      then show ?thesis using assms(2) sch
        by (simp add: scheduleJob_scheduled [OF sch] addJob_def appendLog_def)
    qed
  qed
  then show "jobs (snd (scheduleJob cl cfg t0 inp uid w)) (nextJobId w) = Some job"
    and "job = newJob inp uid (nextJobId w)
                 (if in_scheduleType inp = Immediate then Some t0 else in_scheduledAt inp)"
    and "entryData (last (jobQueue (snd (scheduleJob cl cfg t0 inp uid w)))) = mkQueueData job"
    and "attempts (entryOpts (last (jobQueue (snd (scheduleJob cl cfg t0 inp uid w))))) =
           Some (maxRetryAttempts cfg)"
    and "executions (snd (scheduleJob cl cfg t0 inp uid w)) = executions w"
    and "notifications (snd (scheduleJob cl cfg t0 inp uid w)) = notifications w"
    by simp_all
qed

text \<open>
  C1. A job that is not recurring is created under a configuration whose
  \<^verbatim>\<open>maxRetryAttempts\<close> is \<open>3\<close>, and every attempt of its queue entry fails. The worker takes
  attempt \<open>n\<close> for the last one when \<open>n \<ge> max_retries\<close> (\<open>0\<close> standing for the default),
  not when \<open>n \<ge> max_retries + 1\<close>; and the chain is as long as the \<^verbatim>\<open>attempts\<close> option of the
  queue, which is the configured number, whatever \<open>max_retries\<close> is: three failed Executions,
  the job failed at the end exactly when \<open>max_retries \<le> 3\<close>, and one notification per
  attempt, \<open>max_retries_exceeded\<close> from attempt \<open>max_retries\<close> on.
\<close>

theorem failing_chain_follows_queue_attempts:
  assumes "in_scheduleType inp \<noteq> Recurring"
      and "fst (scheduleJob cl cfg t0 inp uid w) = Inr job"
      and "maxRetryAttempts cfg = 3"
  shows "let w1 = snd (scheduleJob cl cfg t0 inp uid w);
             e = last (jobQueue w1);
             mx = effectiveMaxRetries cfg (entryData e);
             w2 = runAttempts cl cfg wid e 0
                    ((n1, Rejected m1 d1) # (n2, Rejected m2 d2) # (n3, Rejected m3 d3) # rest) w1;
             ev = (\<lambda>i m. if i \<ge> mx
                           then MaxRetriesExceededEvent uid (jid job) (jname job) mx m
                           else JobRetryEvent uid (jid job) (jname job) i mx m)
         in q_maxRetries (entryData e) = nullish (in_maxRetries inp) 3
          \<and> mx = (if nullish (in_maxRetries inp) 3 = 0 then 3 else nullish (in_maxRetries inp) 3)
          \<and> isLastAttempt cfg \<lparr> bullData = entryData e, attemptsMade = made \<rparr> = (int made + 1 \<ge> mx)
          \<and> outcomes w2 = outcomes w @ [(jid job, 1, ExFailed), (jid job, 2, ExFailed), (jid job, 3, ExFailed)]
          \<and> notifications w2 = notifications w @ [ev 1 m1, ev 2 m2, ev 3 m3]
          \<and> map_option status (jobs w2 (jid job)) = Some (if mx \<le> 3 then Failed else Active)
          \<and> map_option counters (jobs w2 (jid job)) = Some (3, 0, 3)"
proof -
  let ?w1 = "snd (scheduleJob cl cfg t0 inp uid w)"
  let ?e = "last (jobQueue ?w1)"
  note q = scheduleJob_queued [OF assms(1) assms(2)]
  have flds: "jid job = nextJobId w" "userId job = uid" "status job = Active"
      "maxRetries job = nullish (in_maxRetries inp) 3"
      "totalExecutions job = 0" "successfulExecutions job = 0" "failedExecutions job = 0"
    by (simp_all add: q(2) newJob_def)
  have key: "q_jobId (entryData ?e) = jid job"
    by (simp add: q(3) mkQueueData_def)
  have mr: "q_maxRetries (entryData ?e) = nullish (in_maxRetries inp) 3"
    by (simp add: q(3) mkQueueData_def flds)
  have row: "jobs ?w1 (q_jobId (entryData ?e)) = Some job"
    using q(1) by (simp add: key flds)
  have att: "attempts (entryOpts ?e) = Some 3"
    by (simp add: q(4) assms(3))
  define w2 where "w2 = runAttempts cl cfg wid ?e 0
                    ((n1, Rejected m1 d1) # (n2, Rejected m2 d2) # (n3, Rejected m3 d3) # rest) ?w1"
  define mx where "mx = effectiveMaxRetries cfg (entryData ?e)"
  note main = three_failures [OF row att, of cfg cl wid n1 m1 d1 n2 m2 d2 n3 m3 d3 rest,
      unfolded Let_def key, folded w2_def mx_def]
  have mxv: "mx = (if nullish (in_maxRetries inp) 3 = 0 then 3 else nullish (in_maxRetries inp) 3)"
    by (simp add: mx_def effectiveMaxRetries_def mr assms(3))
  have lst: "isLastAttempt cfg \<lparr> bullData = entryData ?e, attemptsMade = made \<rparr> = (int made + 1 \<ge> mx)"
    by (simp add: isLastAttempt_def mx_def)
  have out: "outcomes ?w1 = outcomes w"
    by (simp add: outcomes_def q(5))
  have c1: "outcomes w2 = outcomes w @ [(jid job, 1, ExFailed), (jid job, 2, ExFailed), (jid job, 3, ExFailed)]"
    using main by (simp add: out)
  have c2: "notifications w2 = notifications w @
      [if 1 \<ge> mx then MaxRetriesExceededEvent uid (jid job) (jname job) mx m1
       else JobRetryEvent uid (jid job) (jname job) 1 mx m1,
       if 2 \<ge> mx then MaxRetriesExceededEvent uid (jid job) (jname job) mx m2
       else JobRetryEvent uid (jid job) (jname job) 2 mx m2,
       if 3 \<ge> mx then MaxRetriesExceededEvent uid (jid job) (jname job) mx m3
       else JobRetryEvent uid (jid job) (jname job) 3 mx m3]"
    using main by (simp add: q(6) flds(2))
  have c3: "map_option status (jobs w2 (jid job)) = Some (if mx \<le> 3 then Failed else Active)"
    using main by (auto simp add: flds(3))
  have c4: "map_option counters (jobs w2 (jid job)) = Some (3, 0, 3)"
    using main by (auto simp add: flds(5-7))
  show ?thesis
    unfolding Let_def w2_def [symmetric] mx_def [symmetric]
    using mr mxv lst c1 c2 c3 c4 by simp
qed


lemma fourFailures_list:
  "fourFailures =
     (1000, Rejected ''HTTP request failed with status'' 20) #
     (6020, Rejected ''HTTP request failed with status'' 20) #
     (16040, Rejected ''HTTP request failed with status'' 20) #
     [(36060, Rejected ''HTTP request failed with status'' 20)]"
  by (simp add: fourFailures_def executeHttpJob_def)

lemma emptyWorld_fields:
  "outcomes emptyWorld = []" "notifications emptyWorld = []" "nextJobId emptyWorld = 0"
  "executions emptyWorld = []"
  by (simp_all add: outcomes_def emptyWorld_def)

lemma default_attempts: "maxRetryAttempts default_config = 3"
  by (simp add: default_config_def load_config_def orDefault_def)

theorem failing_chain_follows_queue_attempts_witness:
  "in_scheduleType retryTwiceInput \<noteq> Recurring
   \<and> fst (scheduleJob everyFiveMinutes default_config 1000 retryTwiceInput 7 emptyWorld)
       = Inr (newJob retryTwiceInput 7 0 (Some 1000))
   \<and> in_scheduleType retryFiveInput \<noteq> Recurring
   \<and> fst (scheduleJob everyFiveMinutes default_config 1000 retryFiveInput 7 emptyWorld)
       = Inr (newJob retryFiveInput 7 0 (Some 1000))
   \<and> maxRetryAttempts default_config = 3
   \<and> (let w1 = snd (scheduleJob everyFiveMinutes default_config 1000 retryTwiceInput 7 emptyWorld);
           e = last (jobQueue w1);
           w2 = runAttempts everyFiveMinutes default_config ''w1'' e 0 fourFailures w1
       in q_maxRetries (entryData e) = 2
        \<and> isLastAttempt default_config \<lparr> bullData = entryData e, attemptsMade = 1 \<rparr>
        \<and> outcomes w2 = [(0, 1, ExFailed), (0, 2, ExFailed), (0, 3, ExFailed)]
        \<and> notifications w2 =
            [JobRetryEvent 7 0 ''ping'' 1 2 ''HTTP request failed with status'',
             MaxRetriesExceededEvent 7 0 ''ping'' 2 ''HTTP request failed with status'',
             MaxRetriesExceededEvent 7 0 ''ping'' 2 ''HTTP request failed with status'']
        \<and> map_option status (jobs w2 0) = Some Failed)
   \<and> (let w1 = snd (scheduleJob everyFiveMinutes default_config 1000 retryFiveInput 7 emptyWorld);
           e = last (jobQueue w1);
           w2 = runAttempts everyFiveMinutes default_config ''w1'' e 0 fourFailures w1
       in q_maxRetries (entryData e) = 5
        \<and> outcomes w2 = [(0, 1, ExFailed), (0, 2, ExFailed), (0, 3, ExFailed)]
        \<and> notifications w2 =
            [JobRetryEvent 7 0 ''ping'' 1 5 ''HTTP request failed with status'',
             JobRetryEvent 7 0 ''ping'' 2 5 ''HTTP request failed with status'',
             JobRetryEvent 7 0 ''ping'' 3 5 ''HTTP request failed with status'']
        \<and> map_option status (jobs w2 0) = Some Active)"
proof -
  have t1: "in_scheduleType retryTwiceInput \<noteq> Recurring"
    by (simp add: retryTwiceInput_def httpInput_def)
  have i1: "in_scheduleType retryTwiceInput = Immediate"
    by (simp add: retryTwiceInput_def httpInput_def)
  have t2: "fst (scheduleJob everyFiveMinutes default_config 1000 retryTwiceInput 7 emptyWorld)
              = Inr (newJob retryTwiceInput 7 0 (Some 1000))"
    by (simp add: scheduleJob_immediate [OF i1] emptyWorld_fields)
  have f1: "in_scheduleType retryFiveInput \<noteq> Recurring"
    by (simp add: retryFiveInput_def httpInput_def)
  have i2: "in_scheduleType retryFiveInput = Immediate"
    by (simp add: retryFiveInput_def httpInput_def)
  have f2: "fst (scheduleJob everyFiveMinutes default_config 1000 retryFiveInput 7 emptyWorld)
              = Inr (newJob retryFiveInput 7 0 (Some 1000))"
    by (simp add: scheduleJob_immediate [OF i2] emptyWorld_fields)
  have v1: "nullish (in_maxRetries retryTwiceInput) 3 = 2"
      "jid (newJob retryTwiceInput 7 0 (Some 1000)) = 0"
      "jname (newJob retryTwiceInput 7 0 (Some 1000)) = ''ping''"
    by (simp_all add: retryTwiceInput_def httpInput_def nullish_def newJob_def)
  have v2: "nullish (in_maxRetries retryFiveInput) 3 = 5"
      "jid (newJob retryFiveInput 7 0 (Some 1000)) = 0"
      "jname (newJob retryFiveInput 7 0 (Some 1000)) = ''ping''"
    by (simp_all add: retryFiveInput_def httpInput_def nullish_def newJob_def)
  note two = failing_chain_follows_queue_attempts [OF t1 t2 default_attempts,
      of "''w1''" 1000 "''HTTP request failed with status''" 20
         6020 "''HTTP request failed with status''" 20
         16040 "''HTTP request failed with status''" 20
         "[(36060, Rejected ''HTTP request failed with status'' 20)]" 1,
      unfolded Let_def v1 emptyWorld_fields, folded fourFailures_list]
  note five = failing_chain_follows_queue_attempts [OF f1 f2 default_attempts,
      of "''w1''" 1000 "''HTTP request failed with status''" 20
         6020 "''HTTP request failed with status''" 20
         16040 "''HTTP request failed with status''" 20
         "[(36060, Rejected ''HTTP request failed with status'' 20)]" 1,
      unfolded Let_def v2 emptyWorld_fields, folded fourFailures_list]
  show ?thesis
    unfolding Let_def
    using t1 t2 f1 f2 default_attempts two five
    by (simp del: runAttempts.simps map_option_eq_Some)
qed

section \<open>A failed fire of a recurring job\<close>

lemma scheduleJob_recurring:
  assumes "in_scheduleType inp = Recurring"
      and "cronParses cl (in_cronExpression inp)"
      and "cronNext cl (in_cronExpression inp) (nullish (in_timezone inp) ''UTC'') t0 = Some t"
  shows "scheduleJob cl cfg t0 inp uid w =
     (Inr (newJob inp uid (nextJobId w) (Some t)),
      appendLog (nextJobId w) None LvInfo LogCreated
        (addRecurringJob (mkQueueData (newJob inp uid (nextJobId w) (Some t)))
           (in_cronExpression inp) (nullish (in_timezone inp) ''UTC'')
           (w\<lparr> jobs := (jobs w)(nextJobId w \<mapsto> newJob inp uid (nextJobId w) (Some t)),
               nextJobId := Suc (nextJobId w) \<rparr>)))"
  using assms
  by (simp add: scheduleJob_def createAndEnqueue_def enqueueJob_def getNextCronExecution_def
        Let_def newJob_def)

lemma scheduleJob_recurring_Inr:
  assumes "in_scheduleType inp = Recurring"
      and "fst (scheduleJob cl cfg t0 inp uid w) = Inr job"
  shows "cronParses cl (in_cronExpression inp)
       \<and> cronNext cl (in_cronExpression inp) (nullish (in_timezone inp) ''UTC'') t0
           = Some (the (nextExecutionAt job))"
proof (cases "cronNext cl (in_cronExpression inp) (nullish (in_timezone inp) ''UTC'') t0")
  case None
  then show ?thesis using assms
    by (simp add: scheduleJob_def getNextCronExecution_def split: if_splits)
next
  case (Some t)
  show ?thesis
  proof (cases "cronParses cl (in_cronExpression inp)")
    case False
    then show ?thesis using assms by (simp add: scheduleJob_def)
  next
    case True
    then show ?thesis using assms(2) Some
      by (auto simp add: scheduleJob_recurring [OF assms(1) True Some] newJob_def)
  qed
qed

lemma scheduledQueue_failed:
  "scheduledQueue (snd (processJob cl cfg wid now bj (Rejected msg d) w)) = scheduledQueue w"
  by (simp add: processJob_Rejected onFailure_def startAttempt_def createExecution_def
        appendLog_def emit_def saveJob_def saveExecution_def Let_def split: option.splits)


text \<open>
  C7. A recurring job is created and a fire of its registration fails. The entry is on the
  scheduled queue, which has no \<^verbatim>\<open>attempts\<close> option, so the fire is never delivered again:
  its one attempt has \<open>attemptsMade = 0\<close> and is the last allowed one. The worker takes it
  for the last one only when \<open>max_retries \<le> 1\<close>. Then it marks the recurring job failed, where
  the job was to stay active, and emits \<open>max_retries_exceeded\<close>; otherwise the job stays
  active and what is emitted is \<open>job_retry\<close>, for a retry that never comes. In both cases
  \<open>nextExecutionAt\<close> is left as it was and the registration stays on the queue.
\<close>

theorem failed_fire_of_recurring_job:
  assumes "in_scheduleType inp = Recurring"
      and "fst (scheduleJob cl cfg t0 inp uid w) = Inr job"
  shows "let w1 = snd (scheduleJob cl cfg t0 inp uid w);
             e = last (scheduledQueue w1);
             mx = effectiveMaxRetries cfg (entryData e);
             w2 = runAttempts cl cfg wid e 0 ((n1, Rejected m1 d1) # rest) w1
         in entryData e = mkQueueData job
          \<and> \<not> retryAllowed (entryOpts e) 1
          \<and> isLastAttempt cfg \<lparr> bullData = entryData e, attemptsMade = 0 \<rparr> = (mx \<le> 1)
          \<and> outcomes w2 = outcomes w @ [(jid job, 1, ExFailed)]
          \<and> notifications w2 = notifications w @
               [if mx \<le> 1 then MaxRetriesExceededEvent uid (jid job) (jname job) mx m1
                else JobRetryEvent uid (jid job) (jname job) 1 mx m1]
          \<and> map_option (\<lambda>r. (status r, scheduleType r, nextExecutionAt r)) (jobs w2 (jid job)) =
               Some (if mx \<le> 1 then Failed else Active, Recurring, nextExecutionAt job)
          \<and> scheduledQueue w2 = scheduledQueue w1"
proof -
  let ?w1 = "snd (scheduleJob cl cfg t0 inp uid w)"
  let ?e = "last (scheduledQueue ?w1)"
  define t where "t = the (nextExecutionAt job)"
  have cr: "cronParses cl (in_cronExpression inp)"
      "cronNext cl (in_cronExpression inp) (nullish (in_timezone inp) ''UTC'') t0 = Some t"
    using scheduleJob_recurring_Inr [OF assms] by (simp_all add: t_def)
  note eq = scheduleJob_recurring [OF assms(1) cr, of cfg uid w]
  have job: "job = newJob inp uid (nextJobId w) (Some t)"
    using assms(2) by (simp add: eq)
  have flds: "jid job = nextJobId w" "userId job = uid" "status job = Active"
      "scheduleType job = Recurring"
    by (simp_all add: job newJob_def assms(1))
  have ed: "entryData ?e = mkQueueData job"
    by (simp add: eq job addRecurringJob_def appendLog_def)
  have att: "attempts (entryOpts ?e) = None"
    by (simp add: eq addRecurringJob_def appendLog_def)
  have key: "q_jobId (entryData ?e) = jid job"
    by (simp add: ed mkQueueData_def)
  have row: "jobs ?w1 (q_jobId (entryData ?e)) = Some job"
    unfolding key by (simp add: eq job flds(1) [unfolded job])
  have out: "outcomes ?w1 = outcomes w" "notifications ?w1 = notifications w"
    by (simp_all add: eq outcomes_def addRecurringJob_def appendLog_def)
  define w2 where "w2 = runAttempts cl cfg wid ?e 0 ((n1, Rejected m1 d1) # rest) ?w1"
  define mx where "mx = effectiveMaxRetries cfg (entryData ?e)"
  note main = one_failure [OF row att, of cfg cl wid n1 m1 d1 rest,
      unfolded Let_def key, folded w2_def mx_def]
  have w2: "w2 = snd (processJob cl cfg wid n1 \<lparr> bullData = entryData ?e, attemptsMade = 0 \<rparr>
                        (Rejected m1 d1) ?w1)"
    by (simp add: w2_def runAttempts_Rejected retryAllowed_def att del: runAttempts.simps)
  have c0: "\<not> retryAllowed (entryOpts ?e) 1"
    by (simp add: retryAllowed_def att)
  have lst: "isLastAttempt cfg \<lparr> bullData = entryData ?e, attemptsMade = 0 \<rparr> = (mx \<le> 1)"
    by (simp add: isLastAttempt_def mx_def)
  have c1: "outcomes w2 = outcomes w @ [(jid job, 1, ExFailed)]"
    using main by (simp add: out)
  have c2: "notifications w2 = notifications w @
               [if mx \<le> 1 then MaxRetriesExceededEvent uid (jid job) (jname job) mx m1
                else JobRetryEvent uid (jid job) (jname job) 1 mx m1]"
    using main by (simp add: out flds(2))
  have c3: "map_option (\<lambda>r. (status r, scheduleType r, nextExecutionAt r)) (jobs w2 (jid job)) =
               Some (if mx \<le> 1 then Failed else Active, Recurring, nextExecutionAt job)"
    using main by (auto simp add: flds(3) flds(4))
  have c4: "scheduledQueue w2 = scheduledQueue ?w1"
    unfolding w2 by (rule scheduledQueue_failed)
  show ?thesis
    unfolding Let_def w2_def [symmetric] mx_def [symmetric]
    using ed c0 lst c1 c2 c3 c4 by (simp del: map_option_eq_Some)
qed


lemma recurringInput_scheduled:
  "in_scheduleType (recurringInput n) = Recurring"
  "fst (scheduleJob everyFiveMinutes default_config 1000 (recurringInput n) 7 emptyWorld)
     = Inr (newJob (recurringInput n) 7 0 (Some 300000))"
proof -
  show r: "in_scheduleType (recurringInput n) = Recurring"
    by (simp add: recurringInput_def)
  have p: "cronParses everyFiveMinutes (in_cronExpression (recurringInput n))"
    by (simp add: everyFiveMinutes_def recurringInput_def)
  have c: "cronNext everyFiveMinutes (in_cronExpression (recurringInput n))
             (nullish (in_timezone (recurringInput n)) ''UTC'') 1000 = Some 300000"
    by (simp add: everyFiveMinutes_def)
  show "fst (scheduleJob everyFiveMinutes default_config 1000 (recurringInput n) 7 emptyWorld)
     = Inr (newJob (recurringInput n) 7 0 (Some 300000))"
    by (simp add: scheduleJob_recurring [OF r p c] emptyWorld_fields)
qed

lemma recurringInput_values:
  "effectiveMaxRetries default_config (mkQueueData (newJob (recurringInput n) 7 0 (Some 300000)))
     = (if n = 0 then 3 else n)"
  "jid (newJob (recurringInput n) 7 0 (Some 300000)) = 0"
  "jname (newJob (recurringInput n) 7 0 (Some 300000)) = ''ping''"
  "nextExecutionAt (newJob (recurringInput n) 7 0 (Some 300000)) = Some 300000"
  by (simp_all add: effectiveMaxRetries_def mkQueueData_def newJob_def recurringInput_def
        httpInput_def nullish_def default_attempts)

theorem failed_fire_of_recurring_job_witness:
  "in_scheduleType (recurringInput 1) = Recurring
   \<and> fst (scheduleJob everyFiveMinutes default_config 1000 (recurringInput 1) 7 emptyWorld)
       = Inr (newJob (recurringInput 1) 7 0 (Some 300000))
   \<and> in_scheduleType (recurringInput 3) = Recurring
   \<and> fst (scheduleJob everyFiveMinutes default_config 1000 (recurringInput 3) 7 emptyWorld)
       = Inr (newJob (recurringInput 3) 7 0 (Some 300000))
   \<and> (let w1 = snd (scheduleJob everyFiveMinutes default_config 1000 (recurringInput 1) 7 emptyWorld);
           e = last (scheduledQueue w1);
           w2 = runAttempts everyFiveMinutes default_config ''w1'' e 0
                  ((300000, executeHttpJob (HttpResponse 500 ''oops'') 20) # fourFailures) w1
       in outcomes w2 = [(0, 1, ExFailed)]
        \<and> notifications w2 = [MaxRetriesExceededEvent 7 0 ''ping'' 1 ''HTTP request failed with status'']
        \<and> map_option (\<lambda>r. (status r, scheduleType r, nextExecutionAt r)) (jobs w2 0) =
             Some (Failed, Recurring, Some 300000)
        \<and> scheduledQueue w2 = scheduledQueue w1)
   \<and> (let w1 = snd (scheduleJob everyFiveMinutes default_config 1000 (recurringInput 3) 7 emptyWorld);
           e = last (scheduledQueue w1);
           w2 = runAttempts everyFiveMinutes default_config ''w1'' e 0
                  ((300000, executeHttpJob (HttpResponse 500 ''oops'') 20) # fourFailures) w1
       in outcomes w2 = [(0, 1, ExFailed)]
        \<and> notifications w2 = [JobRetryEvent 7 0 ''ping'' 1 3 ''HTTP request failed with status'']
        \<and> map_option (\<lambda>r. (status r, scheduleType r, nextExecutionAt r)) (jobs w2 0) =
             Some (Active, Recurring, Some 300000)
        \<and> scheduledQueue w2 = scheduledQueue w1)"
proof -
  have rest: "executeHttpJob (HttpResponse 500 ''oops'') 20 = Rejected ''HTTP request failed with status'' 20"
    by (simp add: executeHttpJob_def)
  note one = failed_fire_of_recurring_job [OF recurringInput_scheduled [of 1],
      of "''w1''" 300000 "''HTTP request failed with status''" 20 fourFailures,
      unfolded Let_def emptyWorld_fields, folded rest]
  note three = failed_fire_of_recurring_job [OF recurringInput_scheduled [of 3],
      of "''w1''" 300000 "''HTTP request failed with status''" 20 fourFailures,
      unfolded Let_def emptyWorld_fields, folded rest]
  show ?thesis
    unfolding Let_def
    using recurringInput_scheduled [of 1] recurringInput_scheduled [of 3] one three
    by (simp add: recurringInput_values del: runAttempts.simps map_option_eq_Some)
qed

text \<open>
  A recurring job marked failed keeps firing: the next fire of the same registration runs,
  and when it succeeds the job has a second Execution, a new \<open>nextExecutionAt\<close> and still the
  status \<open>Failed\<close>.
\<close>

lemma failed_recurring_job_keeps_firing:
  "(let w1 = snd (scheduleJob everyFiveMinutes default_config 1000 (recurringInput 1) 7 emptyWorld);
        e = last (scheduledQueue w1);
        w2 = runAttempts everyFiveMinutes default_config ''w1'' e 0
               [(300000, executeHttpJob (HttpResponse 500 ''oops'') 20)] w1;
        w3 = runAttempts everyFiveMinutes default_config ''w1'' e 0
               [(600000, executeHttpJob (HttpResponse 200 ''ok'') 20)] w2
    in map_option status (jobs w2 0) = Some Failed
     \<and> outcomes w3 = [(0, 1, ExFailed), (0, 1, ExCompleted)]
     \<and> map_option (\<lambda>r. (status r, nextExecutionAt r, counters r)) (jobs w3 0) =
          Some (Failed, Some 900000, (2, 1, 1)))"
  by code_simp

section \<open>A bound of zero on a queued job\<close>








section \<open>Attempts that overlap\<close>

lemma failureColumns_same:
  "failureColumns t l job job =
     job\<lparr> lastExecutedAt := Some t, totalExecutions := totalExecutions job + 1,
          failedExecutions := failedExecutions job + 1,
          status := (if l then Failed else status job) \<rparr>"
  by (simp add: failureColumns_def)

lemma updateNextExecution_keeps:
  "jobs w j = Some job \<Longrightarrow>
   \<exists>row. jobs (snd (updateNextExecution cl now j w)) j = Some row
        \<and> lastExecutedAt row = lastExecutedAt job"
  by (auto simp add: updateNextExecution_def split: option.splits sum.splits if_splits)

lemma successColumns_recurring:
  "scheduleType job = Recurring \<Longrightarrow> lastExecutedAt row = lastExecutedAt job \<Longrightarrow>
   successColumns t job row =
     row\<lparr> lastExecutedAt := Some t, totalExecutions := totalExecutions job + 1,
          successfulExecutions := successfulExecutions job + 1 \<rparr>"
  by (simp add: successColumns_def)

lemma successColumns_same:
  "scheduleType job \<noteq> Recurring \<Longrightarrow>
   successColumns t job job =
     job\<lparr> lastExecutedAt := Some t, totalExecutions := totalExecutions job + 1,
          successfulExecutions := successfulExecutions job + 1, status := Completed \<rparr>"
  by (simp add: successColumns_def)

lemma onFailure_in_steps:
  "onFailure cfg t bj ex msg d w =
     finishFailure cfg t bj ex msg (jobs w (q_jobId (bullData bj)))
       (saveExecution (failedRow ex t msg d) w)"
proof (cases "jobs w (q_jobId (bullData bj))")
  case None
  then show ?thesis by (simp add: onFailure_def finishFailure_def Let_def)
next
  case (Some job)
  then show ?thesis
    by (simp add: onFailure_def finishFailure_def Let_def saveInstance_def failureColumns_same)
qed

lemma onSuccess_in_steps:
  "onSuccess cl cfg t bj ex res d w =
     finishSuccess cl cfg t bj ex res d (jobs w (q_jobId (bullData bj)))
       (saveExecution (completedRow ex t res d) w)"
proof (cases "jobs w (q_jobId (bullData bj))")
  case None
  then show ?thesis by (simp add: onSuccess_def finishSuccess_def Let_def)
next
  case (Some job)
  let ?k = "q_jobId (bullData bj)"
  let ?w2 = "saveExecution (completedRow ex t res d) w"
  have j2: "jobs ?w2 ?k = Some job" using Some by simp
  show ?thesis
  proof (cases "scheduleType job = Recurring")
    case False
    then show ?thesis using Some
      by (simp add: onSuccess_def finishSuccess_def Let_def saveInstance_def successColumns_same)
  next
    case True
    obtain row where row: "jobs (snd (updateNextExecution cl t ?k ?w2)) ?k = Some row"
        and lst: "lastExecutedAt row = lastExecutedAt job"
      using updateNextExecution_keeps [OF j2, of cl t] by (elim exE conjE)
    show ?thesis
    proof (cases "fst (updateNextExecution cl t ?k ?w2)")
      case (Inl e)
      then show ?thesis using Some True
        by (simp add: onSuccess_def finishSuccess_def Let_def)
    next
      case (Inr r)
      then show ?thesis using Some True row
        by (simp add: onSuccess_def finishSuccess_def Let_def saveInstance_def
              successColumns_recurring [OF True lst])
    qed
  qed
qed

lemma processJob_in_steps:
  "processJob cl cfg wid now bj oc w =
     (let (ex, w1) = startAttempt wid now bj w;
          (inst, w2) = readInstance now bj ex oc w1
      in writeInstance cl cfg now bj ex oc inst w2)"
  by (cases oc)
     (simp_all add: processJob_def case_prod_beta Let_def readInstance_def writeInstance_def
        onFailure_in_steps onSuccess_in_steps)


text \<open>
  C3. One attempt at a time, every finalize adds one to \<open>totalExecutions\<close> and to one of the
  other two counters. The pool, however, runs attempts side by side, and a finalize reads the
  row, waits, and writes back the counters it computed from what it read. When a failing fire
  and a succeeding manual run of the same job have both read the row before either saves it,
  each writes \<open>totalExecutions = 1\<close>: two Executions are finalized, and the job is left with
  \<open>totalExecutions = 1\<close>, \<open>successfulExecutions = 1\<close> and \<open>failedExecutions = 1\<close>, so that
  \<open>successful + failed\<close> exceeds \<open>total\<close>. The same two attempts, one after the other, leave
  \<open>2\<close>, \<open>1\<close> and \<open>1\<close>.
\<close>

theorem overlapping_finalizes_lose_an_execution:
  "outcomes overlapRun = [(0, 1, ExFailed), (0, 1, ExCompleted)]
   \<and> map_option counters (jobs overlapRun 0) = Some (1, 1, 1)
   \<and> (\<exists>job. jobs overlapRun 0 = Some job
            \<and> totalExecutions job < successfulExecutions job + failedExecutions job)
   \<and> outcomes serialRun = outcomes overlapRun
   \<and> map_option counters (jobs serialRun 0) = Some (2, 1, 1)"
proof -
  have o: "outcomes overlapRun = [(0, 1, ExFailed), (0, 1, ExCompleted)]"
    by code_simp
  have c: "map_option counters (jobs overlapRun 0) = Some (1, 1, 1)"
    by code_simp
  have s: "outcomes serialRun = [(0, 1, ExFailed), (0, 1, ExCompleted)]"
    by code_simp
  have d: "map_option counters (jobs serialRun 0) = Some (2, 1, 1)"
    by code_simp
  from c obtain job where job: "jobs overlapRun 0 = Some job" and cnt: "counters job = (1, 1, 1)"
    by (cases "jobs overlapRun 0") simp_all
  from cnt have "totalExecutions job < successfulExecutions job + failedExecutions job"
    by (simp add: counters_def)
  with job have e: "\<exists>job. jobs overlapRun 0 = Some job
            \<and> totalExecutions job < successfulExecutions job + failedExecutions job"
    by (intro exI [of _ job]) simp
  show ?thesis
    using o c e s d by (simp del: map_option_eq_Some)
qed

end
